theory Spec2Isabelle
  imports Complex_Main
begin

section \<open>JavaScript values used by the client\<close>

text \<open>
  A JavaScript \<^verbatim>\<open>number\<close> is a double: a finite value (every finite double is a
  rational), one of the two infinities, or NaN. Signed zero is not distinguished; none of
  the modelled code observes it.
\<close>

datatype jsnum = Fin rat | PosInf | NegInf | NaN

fun Number_isFinite :: "jsnum \<Rightarrow> bool" where
  "Number_isFinite (Fin x) = True"
| "Number_isFinite PosInf = False"
| "Number_isFinite NegInf = False"
| "Number_isFinite NaN = False"

text \<open>\<^verbatim>\<open>Math.max(a, b)\<close>: NaN if either argument is NaN, else the larger one.\<close>

fun Math_max :: "jsnum \<Rightarrow> jsnum \<Rightarrow> jsnum" where
  "Math_max NaN y = NaN"
| "Math_max x NaN = NaN"
| "Math_max PosInf y = PosInf"
| "Math_max x PosInf = PosInf"
| "Math_max NegInf y = y"
| "Math_max x NegInf = x"
| "Math_max (Fin a) (Fin b) = Fin (max a b)"

text \<open>\<^verbatim>\<open>c <= n\<close> for a rational constant \<open>c\<close>; every comparison with NaN is false.\<close>

fun at_least :: "rat \<Rightarrow> jsnum \<Rightarrow> bool" where
  "at_least c (Fin x) = (c \<le> x)"
| "at_least c PosInf = True"
| "at_least c NegInf = False"
| "at_least c NaN = False"

text \<open>
  A JavaScript string is modelled by its UTF-8 bytes, as a \<open>string\<close> (an unpaired
  surrogate as the three bytes of its code point). Comparing with an ASCII text and
  testing for an ASCII prefix are then the same on the bytes as on the string.

  \<open>whiteSpace\<close> lists every code point that \<^verbatim>\<open>String.prototype.trim\<close> removes, the
  ECMAScript white space and line terminators, each as its UTF-8 bytes: U+0009 to U+000D,
  U+0020, U+00A0, U+1680, U+2000 to U+200A, U+2028, U+2029, U+202F, U+205F, U+3000 and
  U+FEFF.
\<close>

definition whiteSpace :: "string list" where
  "whiteSpace =
     [[CHR 0x09], [CHR 0x0A], [CHR 0x0B], [CHR 0x0C], [CHR 0x0D], [CHR 0x20],
      [CHR 0xC2, CHR 0xA0],
      [CHR 0xE1, CHR 0x9A, CHR 0x80],
      [CHR 0xE2, CHR 0x80, CHR 0x80], [CHR 0xE2, CHR 0x80, CHR 0x81],
      [CHR 0xE2, CHR 0x80, CHR 0x82], [CHR 0xE2, CHR 0x80, CHR 0x83],
      [CHR 0xE2, CHR 0x80, CHR 0x84], [CHR 0xE2, CHR 0x80, CHR 0x85],
      [CHR 0xE2, CHR 0x80, CHR 0x86], [CHR 0xE2, CHR 0x80, CHR 0x87],
      [CHR 0xE2, CHR 0x80, CHR 0x88], [CHR 0xE2, CHR 0x80, CHR 0x89],
      [CHR 0xE2, CHR 0x80, CHR 0x8A],
      [CHR 0xE2, CHR 0x80, CHR 0xA8], [CHR 0xE2, CHR 0x80, CHR 0xA9],
      [CHR 0xE2, CHR 0x80, CHR 0xAF],
      [CHR 0xE2, CHR 0x81, CHR 0x9F],
      [CHR 0xE3, CHR 0x80, CHR 0x80],
      [CHR 0xEF, CHR 0xBB, CHR 0xBF]]"

text \<open>
  \<open>stripStart table s\<close> removes from the front of \<open>s\<close>, again and again, whichever entry
  of \<open>table\<close> it starts with. \<^verbatim>\<open>trim\<close> strips the white space at the front and then,
  reading the bytes backwards, at the end; in UTF-8 a text ends with the bytes of a
  character only if that character is its last.
\<close>

fun stripStart :: "string list \<Rightarrow> string \<Rightarrow> string" where
  "stripStart table [] = []"
| "stripStart table (c # s) =
     (case find (\<lambda>w. take (length w) (c # s) = w) table of
        Some w \<Rightarrow> stripStart table (drop (length w - 1) s)
      | None \<Rightarrow> c # s)"

definition trim :: "string \<Rightarrow> string" where
  "trim s = rev (stripStart (map rev whiteSpace) (rev (stripStart whiteSpace s)))"

text \<open>
  \<^verbatim>\<open>toLowerCase\<close>. An ASCII character is lowered by itself: A to Z become a to z, the
  others stay. What the Unicode case mapping puts in the place of a non-ASCII byte, given
  the whole text and the position of the byte, is the parameter \<open>lowerNonAscii\<close>.
\<close>

definition lower_char :: "char \<Rightarrow> char" where
  "lower_char c =
     (let n = (of_char c :: nat) in if 65 \<le> n \<and> n \<le> 90 then char_of (n + 32) else c)"

fun lowerFrom :: "(string \<Rightarrow> nat \<Rightarrow> string) \<Rightarrow> string \<Rightarrow> nat \<Rightarrow> string \<Rightarrow> string" where
  "lowerFrom lowerNonAscii s i [] = []"
| "lowerFrom lowerNonAscii s i (c # cs) =
     (if (of_char c :: nat) < 128 then [lower_char c] else lowerNonAscii s i) @
     lowerFrom lowerNonAscii s (Suc i) cs"

definition toLowerCase :: "(string \<Rightarrow> nat \<Rightarrow> string) \<Rightarrow> string \<Rightarrow> string" where
  "toLowerCase lowerNonAscii s = lowerFrom lowerNonAscii s 0 s"

definition startsWith :: "string \<Rightarrow> string \<Rightarrow> bool" where
  "startsWith s p = (take (length p) s = p)"

text \<open>\<^verbatim>\<open>a || b\<close> on a string and a nullable string: the empty string is falsy.\<close>

definition or_null :: "string \<Rightarrow> string option" where
  "or_null s = (if s = [] then None else Some s)"

text \<open>
  What a call can throw: the \<^verbatim>\<open>ApiError\<close> of the exam client (status and message), any
  other \<^verbatim>\<open>Error\<close> (the \<^verbatim>\<open>TypeError\<close> of a failed \<^verbatim>\<open>fetch\<close>, a \<^verbatim>\<open>SyntaxError\<close>), or
  a thrown value that is not an \<^verbatim>\<open>Error\<close>.
\<close>

datatype thrown = ApiError nat string | OtherError string | NonErrorValue

section \<open>Exam domain: the types of \<^verbatim>\<open>services/examApi.ts\<close>\<close>

datatype QuestionType = MultipleChoice | TrueFalse | ShortAnswer
datatype QuestionDifficulty = Easy | Medium | Hard
datatype ExamStatus = InProgress | Completed | Cancelled

record ExamTemplateRequest =
  name :: string
  subject :: string
  template_chapter :: string
  totalQuestions :: jsnum
  durationMinutes :: jsnum
  adaptiveEnabled :: bool

record ExamTemplateResponse = ExamTemplateRequest +
  template_id :: jsnum
  createdAt :: string

record ExamOption =
  optionId :: jsnum
  optionText :: string

record ExamQuestion =
  question_id :: jsnum
  question_subject :: string
  question_chapter :: string
  topic :: string
  question_text :: string
  question_type :: QuestionType
  difficulty :: QuestionDifficulty
  options :: "ExamOption list"

record StartExamRequest =
  studentId :: string
  examTemplateId :: jsnum

record StartExamResponse =
  attemptId :: jsnum
  template :: ExamTemplateResponse
  firstQuestion :: ExamQuestion

record SubmitAnswerRequest =
  questionId :: jsnum
  selectedOptionId :: "jsnum option"
  freeTextAnswer :: "string option"
  timeTakenSeconds :: jsnum

record DifficultyStats =
  attempted :: jsnum
  correct :: jsnum
  accuracy :: jsnum

record DifficultyBreakdown =
  stats_Easy :: DifficultyStats
  stats_Medium :: DifficultyStats
  stats_Hard :: DifficultyStats

record CurrentStats =
  answeredCount :: jsnum
  correctCount :: jsnum
  wrongCount :: jsnum
  currentAccuracy :: jsnum
  difficultyBreakdown :: DifficultyBreakdown

record SubmitAnswerResponse =
  isCorrect :: "bool option"
  isCompleted :: bool
  nextQuestion :: "ExamQuestion option"
  currentStats :: CurrentStats

record ExamSummaryAnswerLogEntry =
  log_questionId :: jsnum
  log_questionText :: string
  log_selectedOptionId :: "jsnum option"
  log_correctOptionId :: "jsnum option"
  log_isCorrect :: "bool option"
  log_timeTakenSeconds :: jsnum

record ExamSummaryResponse =
  summary_attemptId :: jsnum
  summary_studentId :: string
  summary_template :: ExamTemplateResponse
  scorePercent :: jsnum
  summary_correctCount :: jsnum
  summary_wrongCount :: jsnum
  summary_totalQuestions :: jsnum
  summary_startedAt :: string
  summary_completedAt :: string
  summary_status :: ExamStatus
  perDifficultyStats :: DifficultyBreakdown
  answerLog :: "ExamSummaryAnswerLogEntry list"

record ExamHistoryEntry =
  history_attemptId :: jsnum
  history_studentId :: string
  history_examTemplateId :: jsnum
  examName :: string
  history_subject :: string
  history_chapter :: string
  history_scorePercent :: jsnum
  history_correctCount :: jsnum
  history_wrongCount :: jsnum
  history_totalQuestions :: jsnum
  history_status :: ExamStatus
  history_startedAt :: string
  history_completedAt :: string

section \<open>Exam workflow: the state of \<^verbatim>\<open>components/ExamScreen.tsx\<close>\<close>

record LoadingState =
  loading_template :: "bool option"
  loading_start :: "bool option"
  loading_answer :: "bool option"
  loading_summary :: "bool option"
  loading_history :: "bool option"

record AnswerState =
  selectedOptionId_input :: string
  freeTextAnswer_input :: string
  timeTakenSeconds_input :: string

record StartForm =
  studentId_input :: string
  examTemplateId_input :: string

record ExamScreen =
  templatePayload :: ExamTemplateRequest
  createdTemplate :: "ExamTemplateResponse option"
  activeAttempt :: "StartExamResponse option"
  currentQuestion :: "ExamQuestion option"
  answerState :: AnswerState
  lastAnswerResponse :: "SubmitAnswerResponse option"
  summary :: "ExamSummaryResponse option"
  historyStudentId :: string
  history :: "ExamHistoryEntry list"
  loading :: LoadingState
  startForm :: StartForm

text \<open>
  What a handler does besides updating the state: the requests it sends through the exam
  client and the dialogs it shows with \<^verbatim>\<open>Alert.alert(title, message)\<close>, in order.
\<close>

datatype effect =
    Alert string string
  | Call_createExamTemplate ExamTemplateRequest
  | Call_startExam StartExamRequest
  | Call_submitExamAnswer jsnum SubmitAnswerRequest
  | Call_getExamSummary jsnum
  | Call_getExamHistory string

definition defaultTemplatePayload :: ExamTemplateRequest where
  "defaultTemplatePayload =
     \<lparr>name = '''', subject = '''', template_chapter = '''', totalQuestions = Fin 10,
      durationMinutes = Fin 30, adaptiveEnabled = True\<rparr>"

definition defaultAnswerState :: AnswerState where
  "defaultAnswerState =
     \<lparr>selectedOptionId_input = '''', freeTextAnswer_input = '''',
      timeTakenSeconds_input = ''30''\<rparr>"

definition initialExamScreen :: ExamScreen where
  "initialExamScreen =
     \<lparr>templatePayload = defaultTemplatePayload, createdTemplate = None,
      activeAttempt = None, currentQuestion = None, answerState = defaultAnswerState,
      lastAnswerResponse = None, summary = None, historyStudentId = '''', history = [],
      loading = \<lparr>loading_template = None, loading_start = None, loading_answer = None,
                 loading_summary = None, loading_history = None\<rparr>,
      startForm = \<lparr>studentId_input = '''', examTemplateId_input = ''''\<rparr>\<rparr>"

definition disableAnswerSubmit :: "ExamScreen \<Rightarrow> bool" where
  "disableAnswerSubmit s =
     (case (currentQuestion s, activeAttempt s) of
        (Some q, Some a) \<Rightarrow>
          if question_type q = MultipleChoice then selectedOptionId_input (answerState s) = []
          else False
      | _ \<Rightarrow> True)"

text \<open>
  \<^verbatim>\<open>toNumber\<close>; the builtin \<^verbatim>\<open>Number(value)\<close> is the parameter \<open>Number\<close>.
\<close>

definition toNumber :: "(string \<Rightarrow> jsnum) \<Rightarrow> string \<Rightarrow> jsnum" where
  "toNumber Number v = (let parsed = Number v in if Number_isFinite parsed then parsed else Fin 0)"

definition handleError :: "thrown \<Rightarrow> effect" where
  "handleError error =
     (let message = (case error of
                       ApiError st m \<Rightarrow> m
                     | OtherError m \<Rightarrow> m
                     | NonErrorValue \<Rightarrow> ''Something went wrong'')
      in Alert ''Request failed'' message)"

datatype template_field =
  F_name | F_subject | F_chapter | F_totalQuestions | F_durationMinutes | F_adaptiveEnabled

definition handleTemplateChange ::
  "(string \<Rightarrow> jsnum) \<Rightarrow> template_field \<Rightarrow> string \<Rightarrow> ExamScreen \<Rightarrow> ExamScreen" where
  "handleTemplateChange Number field v s =
     (let prev = templatePayload s in
      s\<lparr>templatePayload :=
          (case field of
             F_totalQuestions \<Rightarrow> prev\<lparr>totalQuestions := toNumber Number v\<rparr>
           | F_durationMinutes \<Rightarrow> prev\<lparr>durationMinutes := toNumber Number v\<rparr>
           | F_adaptiveEnabled \<Rightarrow> prev\<lparr>adaptiveEnabled := (v = ''true'')\<rparr>
           | F_name \<Rightarrow> prev\<lparr>name := v\<rparr>
           | F_subject \<Rightarrow> prev\<lparr>subject := v\<rparr>
           | F_chapter \<Rightarrow> prev\<lparr>template_chapter := v\<rparr>)\<rparr>)"

text \<open>
  The asynchronous handlers. Each one is a single transition: the exam client call is the
  parameter (named as in \<^verbatim>\<open>services/examApi.ts\<close>), which answers the request with
  \<open>Inr\<close> of the response or \<open>Inl\<close> of what it throws. The result is the state after the
  \<^verbatim>\<open>finally\<close> block and the effects in order.
\<close>

text \<open>The \<^verbatim>\<open>payload\<close> that \<^verbatim>\<open>handleCreateTemplate\<close> sends.\<close>

definition createTemplatePayload :: "ExamTemplateRequest \<Rightarrow> ExamTemplateRequest" where
  "createTemplatePayload p =
     p\<lparr>totalQuestions := Math_max (Fin 1) (totalQuestions p),
       durationMinutes := Math_max (Fin 1) (durationMinutes p)\<rparr>"

definition handleCreateTemplate ::
  "(jsnum \<Rightarrow> string) \<Rightarrow> (ExamTemplateRequest \<Rightarrow> thrown + ExamTemplateResponse) \<Rightarrow>
   ExamScreen \<Rightarrow> ExamScreen \<times> effect list" where
  "handleCreateTemplate numToString createExamTemplate s =
     (let s1 = s\<lparr>loading := (loading s)\<lparr>loading_template := Some True\<rparr>\<rparr>;
          payload = createTemplatePayload (templatePayload s);
          (s2, fx) =
            (case createExamTemplate payload of
               Inr result \<Rightarrow>
                 (s1\<lparr>createdTemplate := Some result, activeAttempt := None,
                     currentQuestion := None, summary := None\<rparr>,
                  [Alert ''Template created'' (''Template ID: '' @ numToString (template_id result))])
             | Inl error \<Rightarrow> (s1, [handleError error]))
      in (s2\<lparr>loading := (loading s2)\<lparr>loading_template := Some False\<rparr>\<rparr>,
          Call_createExamTemplate payload # fx))"

text \<open>The \<^verbatim>\<open>payload\<close> that \<^verbatim>\<open>handleStartExam\<close> sends.\<close>

definition startExamPayload :: "(string \<Rightarrow> jsnum) \<Rightarrow> StartForm \<Rightarrow> StartExamRequest" where
  "startExamPayload Number form =
     \<lparr>studentId = trim (studentId_input form),
      examTemplateId = toNumber Number (examTemplateId_input form)\<rparr>"

definition handleStartExam ::
  "(string \<Rightarrow> jsnum) \<Rightarrow> (StartExamRequest \<Rightarrow> thrown + StartExamResponse) \<Rightarrow>
   ExamScreen \<Rightarrow> ExamScreen \<times> effect list" where
  "handleStartExam Number startExam s =
     (if studentId_input (startForm s) = [] \<or> examTemplateId_input (startForm s) = []
      then (s, [Alert ''Missing data'' ''Student ID and template ID are required''])
      else
        let s1 = s\<lparr>loading := (loading s)\<lparr>loading_start := Some True\<rparr>\<rparr>;
            payload = startExamPayload Number (startForm s);
            (s2, fx) =
              (case startExam payload of
                 Inr result \<Rightarrow>
                   (s1\<lparr>activeAttempt := Some result,
                       currentQuestion := Some (firstQuestion result),
                       lastAnswerResponse := None, summary := None,
                       answerState := defaultAnswerState\<rparr>, [])
               | Inl error \<Rightarrow> (s1, [handleError error]))
        in (s2\<lparr>loading := (loading s2)\<lparr>loading_start := Some False\<rparr>\<rparr>,
            Call_startExam payload # fx))"

definition handleSelectOption :: "(jsnum \<Rightarrow> string) \<Rightarrow> jsnum \<Rightarrow> ExamScreen \<Rightarrow> ExamScreen" where
  "handleSelectOption numToString optId s =
     s\<lparr>answerState := (answerState s)\<lparr>selectedOptionId_input := numToString optId\<rparr>\<rparr>"

text \<open>The \<^verbatim>\<open>SubmitAnswerRequest\<close> that \<^verbatim>\<open>handleSubmitAnswer\<close> builds.\<close>

definition submitAnswerRequest ::
  "(string \<Rightarrow> jsnum) \<Rightarrow> ExamQuestion \<Rightarrow> AnswerState \<Rightarrow> SubmitAnswerRequest" where
  "submitAnswerRequest Number q a =
     \<lparr>questionId = question_id q,
      selectedOptionId =
        (if question_type q = MultipleChoice
         then Some (toNumber Number (selectedOptionId_input a)) else None),
      freeTextAnswer =
        (if question_type q = MultipleChoice then None
         else or_null (trim (freeTextAnswer_input a))),
      timeTakenSeconds = Math_max (Fin 0) (toNumber Number (timeTakenSeconds_input a))\<rparr>"

definition handleSubmitAnswer ::
  "(string \<Rightarrow> jsnum) \<Rightarrow> (jsnum \<Rightarrow> SubmitAnswerRequest \<Rightarrow> thrown + SubmitAnswerResponse) \<Rightarrow>
   ExamScreen \<Rightarrow> ExamScreen \<times> effect list" where
  "handleSubmitAnswer Number submitExamAnswer s =
     (case (activeAttempt s, currentQuestion s) of
        (Some attempt, Some q) \<Rightarrow>
          let request = submitAnswerRequest Number q (answerState s);
              s1 = s\<lparr>loading := (loading s)\<lparr>loading_answer := Some True\<rparr>\<rparr>;
              (s2, fx) =
                (case submitExamAnswer (attemptId attempt) request of
                   Inr response \<Rightarrow>
                     (let s3 = s1\<lparr>lastAnswerResponse := Some response,
                                   currentQuestion := nextQuestion response\<rparr>;
                          s4 = (if nextQuestion response = None then s3\<lparr>summary := None\<rparr>
                                else s3)
                      in (s4\<lparr>answerState := defaultAnswerState\<rparr>, []))
                 | Inl error \<Rightarrow> (s1, [handleError error]))
          in (s2\<lparr>loading := (loading s2)\<lparr>loading_answer := Some False\<rparr>\<rparr>,
              Call_submitExamAnswer (attemptId attempt) request # fx)
      | _ \<Rightarrow> (s, []))"

definition handleFetchSummary ::
  "(jsnum \<Rightarrow> thrown + ExamSummaryResponse) \<Rightarrow> ExamScreen \<Rightarrow> ExamScreen \<times> effect list" where
  "handleFetchSummary getExamSummary s =
     (case activeAttempt s of
        None \<Rightarrow> (s, [Alert ''No attempt'' ''Start an exam attempt first''])
      | Some attempt \<Rightarrow>
          let s1 = s\<lparr>loading := (loading s)\<lparr>loading_summary := Some True\<rparr>\<rparr>;
              (s2, fx) =
                (case getExamSummary (attemptId attempt) of
                   Inr data \<Rightarrow> (s1\<lparr>summary := Some data\<rparr>, [])
                 | Inl error \<Rightarrow> (s1, [handleError error]))
          in (s2\<lparr>loading := (loading s2)\<lparr>loading_summary := Some False\<rparr>\<rparr>,
              Call_getExamSummary (attemptId attempt) # fx))"

definition handleFetchHistory ::
  "(string \<Rightarrow> thrown + ExamHistoryEntry list) \<Rightarrow> ExamScreen \<Rightarrow> ExamScreen \<times> effect list" where
  "handleFetchHistory getExamHistory s =
     (if trim (historyStudentId s) = []
      then (s, [Alert ''Missing student'' ''Enter a student ID''])
      else
        let s1 = s\<lparr>loading := (loading s)\<lparr>loading_history := Some True\<rparr>\<rparr>;
            (s2, fx) =
              (case getExamHistory (trim (historyStudentId s)) of
                 Inr result \<Rightarrow> (s1\<lparr>history := result\<rparr>, [])
               | Inl error \<Rightarrow> (s1, [handleError error]))
        in (s2\<lparr>loading := (loading s2)\<lparr>loading_history := Some False\<rparr>\<rparr>,
            Call_getExamHistory (trim (historyStudentId s)) # fx))"

text \<open>
  Everything the screen can do to its state: the text inputs, the option buttons and the
  five handlers, each with the behaviour of the exam client during that call.
\<close>

datatype event =
    TemplateChange template_field string
  | SetStartStudentId string
  | SetStartTemplateId string
  | SelectOption jsnum
  | SetFreeTextAnswer string
  | SetTimeTakenSeconds string
  | SetHistoryStudentId string
  | CreateTemplate "ExamTemplateRequest \<Rightarrow> thrown + ExamTemplateResponse"
  | StartExam "StartExamRequest \<Rightarrow> thrown + StartExamResponse"
  | SubmitAnswer "jsnum \<Rightarrow> SubmitAnswerRequest \<Rightarrow> thrown + SubmitAnswerResponse"
  | FetchSummary "jsnum \<Rightarrow> thrown + ExamSummaryResponse"
  | FetchHistory "string \<Rightarrow> thrown + ExamHistoryEntry list"

fun step ::
  "(string \<Rightarrow> jsnum) \<Rightarrow> (jsnum \<Rightarrow> string) \<Rightarrow> event \<Rightarrow> ExamScreen \<Rightarrow> ExamScreen \<times> effect list"
where
  "step Number numToString (TemplateChange f v) s = (handleTemplateChange Number f v s, [])"
| "step Number numToString (SetStartStudentId v) s =
     (s\<lparr>startForm := (startForm s)\<lparr>studentId_input := v\<rparr>\<rparr>, [])"
| "step Number numToString (SetStartTemplateId v) s =
     (s\<lparr>startForm := (startForm s)\<lparr>examTemplateId_input := v\<rparr>\<rparr>, [])"
| "step Number numToString (SelectOption optId) s = (handleSelectOption numToString optId s, [])"
| "step Number numToString (SetFreeTextAnswer v) s =
     (s\<lparr>answerState := (answerState s)\<lparr>freeTextAnswer_input := v\<rparr>\<rparr>, [])"
| "step Number numToString (SetTimeTakenSeconds v) s =
     (s\<lparr>answerState := (answerState s)\<lparr>timeTakenSeconds_input := v\<rparr>\<rparr>, [])"
| "step Number numToString (SetHistoryStudentId v) s = (s\<lparr>historyStudentId := v\<rparr>, [])"
| "step Number numToString (CreateTemplate api) s = handleCreateTemplate numToString api s"
| "step Number numToString (StartExam api) s = handleStartExam Number api s"
| "step Number numToString (SubmitAnswer api) s = handleSubmitAnswer Number api s"
| "step Number numToString (FetchSummary api) s = handleFetchSummary api s"
| "step Number numToString (FetchHistory api) s = handleFetchHistory api s"

fun run :: "(string \<Rightarrow> jsnum) \<Rightarrow> (jsnum \<Rightarrow> string) \<Rightarrow> event list \<Rightarrow> ExamScreen \<Rightarrow> ExamScreen" where
  "run Number numToString [] s = s"
| "run Number numToString (e # es) s = run Number numToString es (fst (step Number numToString e s))"

text \<open>
  The six pieces of workflow state: created template, active attempt, current question,
  last answer response, summary and history.
\<close>

definition workflow ::
  "ExamScreen \<Rightarrow> ExamTemplateResponse option \<times> StartExamResponse option \<times> ExamQuestion option \<times>
     SubmitAnswerResponse option \<times> ExamSummaryResponse option \<times> ExamHistoryEntry list" where
  "workflow s =
     (createdTemplate s, activeAttempt s, currentQuestion s, lastAnswerResponse s, summary s,
      history s)"

text \<open>Both numbers of a template form are finite.\<close>

definition finite_payload :: "ExamTemplateRequest \<Rightarrow> bool" where
  "finite_payload p = (Number_isFinite (totalQuestions p) \<and> Number_isFinite (durationMinutes p))"

text \<open>
  A press of Start Exam starts a new attempt when the form is filled in and the call
  succeeds; a press that is refused for an empty form, or whose call fails, starts none.
  \<open>no_attempt_started es s\<close>: running the events \<open>es\<close> from \<open>s\<close>, none of them starts a
  new attempt in the state it meets.
\<close>

fun starts_attempt :: "(string \<Rightarrow> jsnum) \<Rightarrow> event \<Rightarrow> ExamScreen \<Rightarrow> bool" where
  "starts_attempt Number (StartExam api) s =
     (studentId_input (startForm s) \<noteq> [] \<and> examTemplateId_input (startForm s) \<noteq> [] \<and>
      (case api (startExamPayload Number (startForm s)) of
         Inr result \<Rightarrow> True
       | Inl error \<Rightarrow> False))"
| "starts_attempt Number e s = False"

fun no_attempt_started ::
  "(string \<Rightarrow> jsnum) \<Rightarrow> (jsnum \<Rightarrow> string) \<Rightarrow> event list \<Rightarrow> ExamScreen \<Rightarrow> bool" where
  "no_attempt_started Number numToString [] s = True"
| "no_attempt_started Number numToString (e # es) s =
     (\<not> starts_attempt Number e s \<and>
      no_attempt_started Number numToString es (fst (step Number numToString e s)))"

section \<open>API client layer\<close>

text \<open>
  A value produced by \<^verbatim>\<open>JSON.parse\<close>. An object keeps its members in order; reading a
  key takes the last member with that key, as \<^verbatim>\<open>JSON.parse\<close> does, and reading a key of
  anything that is not an object gives \<^verbatim>\<open>undefined\<close> (the keys read here are
  \<^verbatim>\<open>status\<close>, \<^verbatim>\<open>sessionId\<close>, \<^verbatim>\<open>message\<close> and \<^verbatim>\<open>error\<close>). A \<open>json option\<close> is a value
  that may be \<^verbatim>\<open>undefined\<close>.
\<close>

datatype json =
    JNull
  | JBool bool
  | JNum jsnum
  | JStr string
  | JArr "json list"
  | JObj "(string \<times> json) list"

fun get_field :: "string \<Rightarrow> json \<Rightarrow> json option" where
  "get_field k (JObj members) = map_of (rev members) k"
| "get_field k v = None"

fun truthy :: "json option \<Rightarrow> bool" where
  "truthy None = False"
| "truthy (Some JNull) = False"
| "truthy (Some (JBool b)) = b"
| "truthy (Some (JNum (Fin x))) = (x \<noteq> 0)"
| "truthy (Some (JNum NaN)) = False"
| "truthy (Some (JNum n)) = True"
| "truthy (Some (JStr t)) = (t \<noteq> [])"
| "truthy (Some v) = True"

text \<open>\<^verbatim>\<open>a || b\<close> and \<^verbatim>\<open>a ?? b\<close>.\<close>

definition js_or :: "json option \<Rightarrow> json option \<Rightarrow> json option" where
  "js_or a b = (if truthy a then a else b)"

definition nullish_or :: "json option \<Rightarrow> json \<Rightarrow> json" where
  "nullish_or a b = (case a of None \<Rightarrow> b | Some JNull \<Rightarrow> b | Some v \<Rightarrow> v)"

fun join_comma :: "string list \<Rightarrow> string" where
  "join_comma [] = []"
| "join_comma [x] = x"
| "join_comma (x # y # ys) = x @ '','' @ join_comma (y # ys)"

text \<open>
  The conversion to a string that the \<^verbatim>\<open>Error\<close> constructor applies to its message. The
  printing of numbers is the parameter \<open>numToString\<close>.
\<close>

fun ToString :: "(jsnum \<Rightarrow> string) \<Rightarrow> json option \<Rightarrow> string" where
  "ToString numToString None = ''undefined''"
| "ToString numToString (Some JNull) = ''null''"
| "ToString numToString (Some (JBool b)) = (if b then ''true'' else ''false'')"
| "ToString numToString (Some (JNum n)) = numToString n"
| "ToString numToString (Some (JStr t)) = t"
| "ToString numToString (Some (JArr xs)) =
     join_comma (map (\<lambda>x. if x = JNull then [] else ToString numToString (Some x)) xs)"
| "ToString numToString (Some (JObj members)) = ''[object Object]''"

text \<open>
  A \<^verbatim>\<open>Response\<close>: \<open>body\<close> is what reading the body gives, \<open>Inl\<close> when the read itself
  fails. \<^verbatim>\<open>response.ok\<close> is true for the statuses 200 to 299. The outcome of \<^verbatim>\<open>fetch\<close> is
  \<open>Inl\<close> of the error when the request cannot be made and \<open>Inr\<close> of the response
  otherwise; \<^verbatim>\<open>JSON.parse\<close> is the parameter \<open>JSON_parse\<close>, \<open>None\<close> for a syntax error.
\<close>

record Response =
  status :: nat
  statusText :: string
  body :: "thrown + string"

definition ok :: "Response \<Rightarrow> bool" where
  "ok response = (200 \<le> status response \<and> status response \<le> 299)"

subsection \<open>\<^verbatim>\<open>services/examApi.ts\<close>\<close>

definition parseJson :: "(string \<Rightarrow> json option) \<Rightarrow> Response \<Rightarrow> thrown + json" where
  "parseJson JSON_parse response =
     (case body response of
        Inl e \<Rightarrow> Inl e
      | Inr raw \<Rightarrow>
          if raw = [] then Inr (JObj [])
          else (case JSON_parse raw of
                  Some v \<Rightarrow> Inr v
                | None \<Rightarrow> Inl (ApiError (status response) (''Failed to parse JSON: '' @ raw))))"

definition request ::
  "(string \<Rightarrow> json option) \<Rightarrow> (jsnum \<Rightarrow> string) \<Rightarrow> thrown + Response \<Rightarrow> thrown + json" where
  "request JSON_parse numToString fetched =
     (case fetched of
        Inl e \<Rightarrow> Inl e
      | Inr response \<Rightarrow>
          if \<not> ok response then
            let message0 = (if statusText response = [] then ''Request failed''
                            else statusText response);
                message =
                  (case parseJson JSON_parse response of
                     Inr b \<Rightarrow>
                       js_or (get_field ''message'' b)
                         (js_or (get_field ''error'' b) (Some (JStr message0)))
                   | Inl e \<Rightarrow> Some (JStr message0))
            in Inl (ApiError (status response) (ToString numToString message))
          else if status response = 204 then Inr (JObj [])
          else parseJson JSON_parse response)"

subsection \<open>\<^verbatim>\<open>services/chatApi.ts\<close>\<close>

text \<open>\<^verbatim>\<open>response.json()\<close>: read the body and parse it.\<close>

definition response_json :: "(string \<Rightarrow> json option) \<Rightarrow> Response \<Rightarrow> thrown + json" where
  "response_json JSON_parse response =
     (case body response of
        Inl e \<Rightarrow> Inl e
      | Inr raw \<Rightarrow>
          (case JSON_parse raw of
             Some v \<Rightarrow> Inr v
           | None \<Rightarrow> Inl (OtherError ''SyntaxError'')))"

text \<open>The \<^verbatim>\<open>try\<close> block of \<^verbatim>\<open>fetchMostRecentSessionId\<close>, then the function with its \<^verbatim>\<open>catch\<close>.\<close>

definition fetchMostRecentSessionId_try ::
  "(string \<Rightarrow> json option) \<Rightarrow> thrown + Response \<Rightarrow> thrown + json" where
  "fetchMostRecentSessionId_try JSON_parse fetched =
     (case fetched of
        Inl e \<Rightarrow> Inl e
      | Inr response \<Rightarrow>
          if \<not> ok response then Inr JNull
          else (case response_json JSON_parse response of
                  Inl e \<Rightarrow> Inl e
                | Inr data \<Rightarrow>
                    if get_field ''status'' data = Some (JStr ''success'') \<and>
                       truthy (get_field ''sessionId'' data)
                    then (case get_field ''sessionId'' data of
                            Some v \<Rightarrow> Inr v
                          | None \<Rightarrow> Inr JNull)
                    else Inr (nullish_or (get_field ''sessionId'' data) JNull)))"

definition fetchMostRecentSessionId ::
  "(string \<Rightarrow> json option) \<Rightarrow> thrown + Response \<Rightarrow> thrown + json" where
  "fetchMostRecentSessionId JSON_parse fetched =
     (case fetchMostRecentSessionId_try JSON_parse fetched of
        Inl e \<Rightarrow> Inr JNull
      | Inr v \<Rightarrow> Inr v)"

section \<open>Chat workflow: \<^verbatim>\<open>components/ChatScreen.tsx\<close>\<close>

datatype Sender = User | Bot

record ChatMessage =
  msg_id :: string
  msg_text :: string
  sender :: Sender
  time :: string

datatype history_id = NumId jsnum | StrId string

record ChatHistoryItem =
  item_id :: "history_id option"
  message :: string
  item_reply :: "string option"
  item_timestamp :: "string option"

record SendChatRequest =
  question :: string
  request_sessionId :: "string option"

text \<open>
  \<^verbatim>\<open>SendChatResponse\<close>, with the \<^verbatim>\<open>followUpQuestion\<close> that \<^verbatim>\<open>handleSend\<close> reads from it.
  A missing member is \<open>None\<close>; a body that is not an object reads as every member missing.
\<close>

record SendChatResponse =
  response_status :: "string option"
  response_sessionId :: "string option"
  response_question :: "string option"
  reply :: "string option"
  response_timestamp :: "string option"
  response_error :: "string option"
  answer :: "string option"
  response_followUpQuestion :: "string option"

record ChatScreen =
  sessionId :: "string option"
  input :: string
  isTyping :: bool
  isHistoryLoading :: bool
  followUpQuestion :: "string option"
  messages :: "ChatMessage list"

text \<open>The greeting is UTF-8: a waving hand before \<open>Hi!\<close> and a dash after \<open>Smarty\<close>.\<close>

definition greeting :: string where
  "greeting =
     [CHR 0xF0, CHR 0x9F, CHR 0x91, CHR 0x8B] @ '' Hi!  I'm Smarty '' @
     [CHR 0xE2, CHR 0x80, CHR 0x94] @
     '' your Smart Study AI Assistant. Ask me anything about your studies, solve doubts and more... What would you like to learn today?''"

text \<open>\<^verbatim>\<open>initialMessages\<close>; the clock reading taken when the module loads is the parameter.\<close>

definition initialMessages :: "string \<Rightarrow> ChatMessage list" where
  "initialMessages loadTime = [\<lparr>msg_id = ''1'', msg_text = greeting, sender = Bot, time = loadTime\<rparr>]"

datatype ChatAction = Add ChatMessage | Set "ChatMessage list"

text \<open>The reducer; a \<open>Set\<close> payload is a list by its type, so \<^verbatim>\<open>Array.isArray\<close> holds.\<close>

fun reducer :: "ChatMessage list \<Rightarrow> ChatAction \<Rightarrow> ChatMessage list" where
  "reducer state (Add payload) = state @ [payload]"
| "reducer state (Set payload) = payload"

text \<open>A nullable string in a condition or on the left of \<^verbatim>\<open>||\<close>: null and empty are falsy.\<close>

fun nonempty :: "string option \<Rightarrow> bool" where
  "nonempty None = False"
| "nonempty (Some t) = (t \<noteq> [])"

definition str_or :: "string option \<Rightarrow> string option \<Rightarrow> string option" where
  "str_or a b = (if nonempty a then a else b)"

text \<open>
  \<^verbatim>\<open>mapHistoryToMessages\<close>. \<open>baseId\<close> is the text that the template literal makes of
  \<^verbatim>\<open>entry.id ?? `history-${index}`\<close>; \<open>forEach_entry\<close> is the body of the \<^verbatim>\<open>forEach\<close>
  callback, pushing onto \<open>mapped\<close>. \<^verbatim>\<open>formatTimestamp\<close> reads the locale and, for a
  missing or unparsable timestamp, the clock; the parameter \<open>formatTimestamp\<close> gives its
  result at the call made for the entry at \<open>index\<close> and the given sender.
\<close>

definition baseId :: "(jsnum \<Rightarrow> string) \<Rightarrow> ChatHistoryItem \<Rightarrow> nat \<Rightarrow> string" where
  "baseId numToString entry index =
     (case item_id entry of
        Some (NumId n) \<Rightarrow> numToString n
      | Some (StrId t) \<Rightarrow> t
      | None \<Rightarrow> ''history-'' @ numToString (Fin (of_nat index)))"

definition forEach_entry ::
  "(nat \<Rightarrow> Sender \<Rightarrow> string option \<Rightarrow> string) \<Rightarrow> (jsnum \<Rightarrow> string) \<Rightarrow> ChatHistoryItem \<Rightarrow> nat \<Rightarrow>
   ChatMessage list \<Rightarrow> ChatMessage list" where
  "forEach_entry formatTimestamp numToString entry index mapped =
     (let mapped1 =
            (if message entry \<noteq> []
             then mapped @ [\<lparr>msg_id = baseId numToString entry index @ ''-user'',
                              msg_text = message entry, sender = User,
                              time = formatTimestamp index User (item_timestamp entry)\<rparr>]
             else mapped)
      in (case item_reply entry of
            Some r \<Rightarrow>
              if r \<noteq> []
              then mapped1 @ [\<lparr>msg_id = baseId numToString entry index @ ''-bot'',
                                msg_text = r, sender = Bot,
                                time = formatTimestamp index Bot (item_timestamp entry)\<rparr>]
              else mapped1
          | None \<Rightarrow> mapped1))"

fun forEach ::
  "(nat \<Rightarrow> Sender \<Rightarrow> string option \<Rightarrow> string) \<Rightarrow> (jsnum \<Rightarrow> string) \<Rightarrow> ChatHistoryItem list \<Rightarrow> nat \<Rightarrow>
   ChatMessage list \<Rightarrow> ChatMessage list" where
  "forEach formatTimestamp numToString [] index mapped = mapped"
| "forEach formatTimestamp numToString (entry # items) index mapped =
     forEach formatTimestamp numToString items (Suc index)
       (forEach_entry formatTimestamp numToString entry index mapped)"

definition mapHistoryToMessages ::
  "(nat \<Rightarrow> Sender \<Rightarrow> string option \<Rightarrow> string) \<Rightarrow> (jsnum \<Rightarrow> string) \<Rightarrow> string \<Rightarrow> ChatHistoryItem list \<Rightarrow>
   ChatMessage list" where
  "mapHistoryToMessages formatTimestamp numToString loadTime items =
     (let mapped = forEach formatTimestamp numToString items 0 []
      in if mapped \<noteq> [] then mapped else initialMessages loadTime)"

text \<open>
  \<^verbatim>\<open>loadHistory\<close>, run once when the screen mounts. \<open>recentSession\<close> is what
  \<^verbatim>\<open>fetchMostRecentSessionId\<close> resolved to, \<open>fetchChatHistory\<close> answers the history request,
  and \<open>unmounted\<close> says during which of the two awaits, if any, the screen went away. The
  five-second timer only clears \<^verbatim>\<open>isHistoryLoading\<close> earlier and is left out.
\<close>

datatype unmount = StaysMounted | DuringSessionLookup | DuringHistoryFetch

definition loadHistory ::
  "(nat \<Rightarrow> Sender \<Rightarrow> string option \<Rightarrow> string) \<Rightarrow> (jsnum \<Rightarrow> string) \<Rightarrow> string \<Rightarrow> string option \<Rightarrow>
   (string \<Rightarrow> nat \<Rightarrow> thrown + ChatHistoryItem list) \<Rightarrow> unmount \<Rightarrow> ChatScreen \<Rightarrow> ChatScreen" where
  "loadHistory formatTimestamp numToString loadTime recentSession fetchChatHistory unmounted s =
     (if unmounted = DuringSessionLookup then s
      else (case recentSession of
              Some sid \<Rightarrow>
                if sid \<noteq> [] then
                  (let s1 = s\<lparr>sessionId := Some sid\<rparr> in
                   case fetchChatHistory sid 30 of
                     Inr historyItems \<Rightarrow>
                       if unmounted = DuringHistoryFetch then s1
                       else
                         let hydrated =
                               mapHistoryToMessages formatTimestamp numToString loadTime historyItems
                         in s1\<lparr>messages := reducer (messages s1) (Set hydrated),
                               isHistoryLoading := False\<rparr>
                   | Inl e \<Rightarrow>
                       if unmounted = DuringHistoryFetch then s1
                       else s1\<lparr>isHistoryLoading := False\<rparr>)
                else s\<lparr>isHistoryLoading := False\<rparr>
            | None \<Rightarrow> s\<lparr>isHistoryLoading := False\<rparr>))"

definition initialChatScreen :: "string \<Rightarrow> ChatScreen" where
  "initialChatScreen loadTime =
     \<lparr>sessionId = None, input = '''', isTyping = False, isHistoryLoading = True,
      followUpQuestion = None, messages = initialMessages loadTime\<rparr>"

text \<open>
  \<^verbatim>\<open>handleSend\<close>. The identifiers and clock readings of the new messages come from
  \<^verbatim>\<open>Date\<close> and \<^verbatim>\<open>Math.random\<close> and are given in \<open>stamps\<close>. The bot message is appended by
  a timer 800 ms after the reply; the result is the state once that timer has run.
  \<open>lowerNonAscii\<close> is the parameter of \<^verbatim>\<open>toLowerCase\<close>.
\<close>

record stamps =
  userMsg_id :: string
  userMsg_time :: string
  botMsg_id :: string
  botMsg_time :: string

definition finalText :: "string option \<Rightarrow> ChatScreen \<Rightarrow> string" where
  "finalText textToSend s = (case textToSend of Some t \<Rightarrow> t | None \<Rightarrow> trim (input s))"

definition isDisagreement :: "(string \<Rightarrow> nat \<Rightarrow> string) \<Rightarrow> string \<Rightarrow> bool" where
  "isDisagreement lowerNonAscii sent =
     (let lowerText = trim (toLowerCase lowerNonAscii sent)
      in lowerText = ''no'' \<or> lowerText = ''nope'' \<or> lowerText = ''disagree'' \<or>
         lowerText = ''i disagree'' \<or> startsWith lowerText ''no '' \<or>
         startsWith lowerText ''i don't'')"

definition replyText :: "SendChatResponse \<Rightarrow> string" where
  "replyText response =
     (case str_or (reply response) (str_or (answer response) (Some ''No response from server.'')) of
        Some t \<Rightarrow> t
      | None \<Rightarrow> ''No response from server.'')"

definition connectionError :: string where
  "connectionError =
     [CHR 0xE2, CHR 0x9A, CHR 0xA0, CHR 0xEF, CHR 0xB8, CHR 0x8F] @
     '' Connection error. Please try again.''"

definition handleSend ::
  "(string \<Rightarrow> nat \<Rightarrow> string) \<Rightarrow> stamps \<Rightarrow> (SendChatRequest \<Rightarrow> thrown + SendChatResponse) \<Rightarrow> string option \<Rightarrow>
   ChatScreen \<Rightarrow> ChatScreen" where
  "handleSend lowerNonAscii st sendChatMessage textToSend s =
     (if finalText textToSend s = [] then s
      else
        let userMsg = \<lparr>msg_id = userMsg_id st, msg_text = finalText textToSend s,
                       sender = User, time = userMsg_time st\<rparr>;
            s1 = s\<lparr>messages := reducer (messages s) (Add userMsg), input := '''',
                   followUpQuestion := None, isTyping := True\<rparr>
        in (case sendChatMessage \<lparr>question = msg_text userMsg, request_sessionId = sessionId s\<rparr> of
              Inr response \<Rightarrow>
                let s2 = (if nonempty (response_sessionId response)
                          then s1\<lparr>sessionId := response_sessionId response\<rparr> else s1);
                    s3 = (if nonempty (response_followUpQuestion response) \<and>
                             \<not> isDisagreement lowerNonAscii (finalText textToSend s)
                          then s2\<lparr>followUpQuestion := response_followUpQuestion response\<rparr>
                          else s2\<lparr>followUpQuestion := None\<rparr>);
                    botMsg = \<lparr>msg_id = botMsg_id st, msg_text = replyText response,
                              sender = Bot, time = botMsg_time st\<rparr>
                in s3\<lparr>messages := reducer (messages s3) (Add botMsg), isTyping := False\<rparr>
            | Inl e \<Rightarrow>
                let errorMsg = \<lparr>msg_id = botMsg_id st, msg_text = connectionError,
                                sender = Bot, time = botMsg_time st\<rparr>
                in s1\<lparr>isTyping := False, messages := reducer (messages s1) (Add errorMsg)\<rparr>))"

section \<open>Two rules as the specification words them\<close>


text \<open>
  The specification's wording of the reply text, \<^verbatim>\<open>reply ?? answer ?? default\<close>: the
  \<^verbatim>\<open>reply\<close> member; if absent, the \<^verbatim>\<open>answer\<close> member; if both are absent, the placeholder.
\<close>

definition spec_replyText :: "SendChatResponse \<Rightarrow> string" where
  "spec_replyText response =
     (case reply response of
        Some t \<Rightarrow> t
      | None \<Rightarrow>
          (case answer response of
             Some t \<Rightarrow> t
           | None \<Rightarrow> ''No response from server.''))"

section \<open>Example data\<close>

text \<open>
  Concrete values for the examples below: stand-ins for the builtins (exact on the texts and
  numbers the examples use), a template, a question, an attempt, and backend responses.
\<close>

definition demo_Number :: "string \<Rightarrow> jsnum" where
  "demo_Number v =
     (if v = ''30'' then Fin 30 else if v = ''2'' then Fin 2 else if v = ''0'' then Fin 0
      else if v = '''' then Fin 0 else if v = ''-5'' then Fin (- 5) else NaN)"

definition demo_numToString :: "jsnum \<Rightarrow> string" where
  "demo_numToString n =
     (if n = Fin 0 then ''0'' else if n = Fin 1 then ''1'' else if n = Fin 2 then ''2''
      else if n = Fin 7 then ''7'' else ''NaN'')"

definition demo_JSON_parse :: "string \<Rightarrow> json option" where
  "demo_JSON_parse raw =
     (if raw = ''null'' then Some JNull
      else if raw = ''{msg}'' then Some (JObj [(''message'', JStr ''Template not found'')])
      else if raw = ''{err}'' then Some (JObj [(''message'', JStr ''''), (''error'', JStr ''Bad id'')])
      else if raw = ''{sid}'' then Some (JObj [(''status'', JStr ''success''), (''sessionId'', JStr ''abc'')])
      else None)"

text \<open>A case mapping that leaves every non-ASCII byte as it is, as for text without case.\<close>

definition demo_lowerNonAscii :: "string \<Rightarrow> nat \<Rightarrow> string" where
  "demo_lowerNonAscii s i = [s ! i]"

definition demo_formatTimestamp :: "nat \<Rightarrow> Sender \<Rightarrow> string option \<Rightarrow> string" where
  "demo_formatTimestamp index who v = ''10:15 AM''"

definition demo_template :: ExamTemplateResponse where
  "demo_template =
     \<lparr>name = ''Algebra'', subject = ''Math'', template_chapter = ''Eq'', totalQuestions = Fin 5,
      durationMinutes = Fin 10, adaptiveEnabled = True, template_id = Fin 1,
      createdAt = ''2024-01-01T00:00:00Z''\<rparr>"

definition demo_question :: "QuestionType \<Rightarrow> ExamQuestion" where
  "demo_question ty =
     \<lparr>question_id = Fin 7, question_subject = ''Math'', question_chapter = ''Eq'',
      topic = ''Linear'', question_text = ''Solve x + 1 = 3'', question_type = ty,
      difficulty = Easy,
      options = [\<lparr>optionId = Fin 1, optionText = ''1''\<rparr>, \<lparr>optionId = Fin 2, optionText = ''2''\<rparr>]\<rparr>"

definition demo_attempt :: StartExamResponse where
  "demo_attempt =
     \<lparr>attemptId = Fin 7, template = demo_template, firstQuestion = demo_question MultipleChoice\<rparr>"

definition demo_stats :: DifficultyStats where
  "demo_stats = \<lparr>attempted = Fin 1, correct = Fin 1, accuracy = Fin 100\<rparr>"

definition demo_last_answer :: SubmitAnswerResponse where
  "demo_last_answer =
     \<lparr>isCorrect = Some True, isCompleted = True, nextQuestion = None,
      currentStats =
        \<lparr>answeredCount = Fin 1, correctCount = Fin 1, wrongCount = Fin 0,
         currentAccuracy = Fin 100,
         difficultyBreakdown =
           \<lparr>stats_Easy = demo_stats, stats_Medium = demo_stats, stats_Hard = demo_stats\<rparr>\<rparr>\<rparr>"

text \<open>An attempt in progress on a question of the given type, with the given answer form.\<close>

definition demo_screen :: "QuestionType \<Rightarrow> AnswerState \<Rightarrow> ExamScreen" where
  "demo_screen ty form =
     initialExamScreen
       \<lparr>activeAttempt := Some demo_attempt, currentQuestion := Some (demo_question ty),
        answerState := form,
        startForm := \<lparr>studentId_input = ''student-001'', examTemplateId_input = ''2''\<rparr>,
        historyStudentId := ''student-001''\<rparr>"

definition demo_stamps :: stamps where
  "demo_stamps =
     \<lparr>userMsg_id = ''u1'', userMsg_time = ''10:15 AM'', botMsg_id = ''b1'',
      botMsg_time = ''10:15 AM''\<rparr>"

definition demo_response :: "string option \<Rightarrow> string option \<Rightarrow> SendChatResponse" where
  "demo_response r a =
     \<lparr>response_status = Some ''success'', response_sessionId = Some ''abc'',
      response_question = None, reply = r, response_timestamp = None, response_error = None,
      answer = a, response_followUpQuestion = Some ''Want an example?''\<rparr>"

definition demo_sendChatMessage ::
  "string option \<Rightarrow> string option \<Rightarrow> SendChatRequest \<Rightarrow> thrown + SendChatResponse" where
  "demo_sendChatMessage r a req = Inr (demo_response r a)"

text \<open>
  Texts with white space around them: \<open>x = 2\<close> between no-break spaces (U+00A0) and
  blanks; a tab, a blank and a thin space (U+2009); \<open>No\<close> between a tab and a line
  feed; and \<open>no\<close> followed by a no-break space.
\<close>

definition padded_answer :: string where
  "padded_answer = [CHR 0xC2, CHR 0xA0] @ ''  x = 2 '' @ [CHR 0xC2, CHR 0xA0]"

definition blank_answer :: string where
  "blank_answer = [CHR 0x09, CHR 0x20, CHR 0xE2, CHR 0x80, CHR 0x89]"

definition tabbed_no :: string where
  "tabbed_no = [CHR 0x09] @ ''No'' @ [CHR 0x0A]"

definition no_nbsp :: string where
  "no_nbsp = ''no'' @ [CHR 0xC2, CHR 0xA0]"

text \<open>
  The chat screen with \<open>Old prompt\<close> pending, and a backend that replies \<open>Sure.\<close> with
  the suggestion \<open>Want an example?\<close>.
\<close>

definition demo_chat :: ChatScreen where
  "demo_chat = (initialChatScreen ''10:00 AM'')\<lparr>followUpQuestion := Some ''Old prompt''\<rparr>"

definition demo_suggesting :: "SendChatRequest \<Rightarrow> thrown + SendChatResponse" where
  "demo_suggesting = demo_sendChatMessage (Some ''Sure.'') None"

section \<open>Facts about the builtins\<close>

lemma toNumber_finite: "\<exists>x. toNumber Number v = Fin x"
  by (cases "Number v") (simp_all add: toNumber_def)

lemma toNumber_isFinite: "Number_isFinite (toNumber Number v)"
  by (cases "Number v") (simp_all add: toNumber_def)

section \<open>Exam workflow\<close>

subsection \<open>Invariants of the screen\<close>

text \<open>
  Only a press of Start Exam that starts a new attempt can replace an empty current
  question; a press that is refused or whose call fails leaves it empty.
\<close>

lemma step_currentQuestion_None:
  "currentQuestion s = None \<Longrightarrow> \<not> starts_attempt Number e s \<Longrightarrow>
   currentQuestion (fst (step Number numToString e s)) = None"
  by (cases e)
     (auto simp: handleTemplateChange_def handleSelectOption_def handleCreateTemplate_def
        handleSubmitAnswer_def handleFetchSummary_def handleFetchHistory_def
        handleStartExam_def Let_def
        split: sum.splits option.splits prod.splits)

lemma run_currentQuestion_None:
  "currentQuestion s = None \<Longrightarrow> no_attempt_started Number numToString es s \<Longrightarrow>
   currentQuestion (run Number numToString es s) = None"
proof (induction es arbitrary: s)
  case Nil
  then show ?case by simp
next
  case (Cons e es)
  then show ?case by (simp add: step_currentQuestion_None)
qed

lemma handleStartExam_sets_question:
  "studentId_input (startForm s) \<noteq> [] \<Longrightarrow> examTemplateId_input (startForm s) \<noteq> [] \<Longrightarrow>
   startExam (startExamPayload Number (startForm s)) = Inr result \<Longrightarrow>
   currentQuestion (fst (handleStartExam Number startExam s)) = Some (firstQuestion result)"
  by (simp add: handleStartExam_def Let_def)

text \<open>
  The template form only ever holds finite numbers: it starts at 10 and 30, and every edit
  goes through \<^verbatim>\<open>toNumber\<close>.
\<close>

lemma step_finite_payload:
  "finite_payload (templatePayload s) \<Longrightarrow>
   finite_payload (templatePayload (fst (step Number numToString e s)))"
  by (cases e)
     (auto simp: finite_payload_def handleTemplateChange_def handleSelectOption_def
        handleCreateTemplate_def handleSubmitAnswer_def handleFetchSummary_def
        handleFetchHistory_def handleStartExam_def Let_def toNumber_isFinite
        split: sum.splits option.splits prod.splits template_field.splits)

lemma run_finite_payload:
  "finite_payload (templatePayload s) \<Longrightarrow>
   finite_payload (templatePayload (run Number numToString es s))"
  by (induction es arbitrary: s) (simp_all add: step_finite_payload)

lemma initial_finite_payload: "finite_payload (templatePayload initialExamScreen)"
  by (simp add: finite_payload_def initialExamScreen_def defaultTemplatePayload_def)

lemma finite_payload_cases:
  assumes "finite_payload p"
  obtains tq dm where "totalQuestions p = Fin tq" and "durationMinutes p = Fin dm"
  using assms unfolding finite_payload_def
  by (cases "totalQuestions p"; cases "durationMinutes p") simp_all

subsection \<open>Completion of an attempt\<close>

text \<open>
  C1. When \<^verbatim>\<open>handleSubmitAnswer\<close> runs with an active attempt and a current question and
  the response has \<^verbatim>\<open>nextQuestion == null\<close>, the current question becomes null. From
  there, after any sequence of events in which no new attempt is started (presses of Start
  Exam that are refused or whose call fails included), the current question is still
  null, the submit control is disabled, and \<^verbatim>\<open>handleSubmitAnswer\<close> returns at once: it
  sends no request and leaves the state as it is.
\<close>

theorem completed_attempt_blocks_submission:
  assumes "activeAttempt s = Some a" and "currentQuestion s = Some q"
    and "submitExamAnswer (attemptId a) (submitAnswerRequest Number q (answerState s)) = Inr response"
    and "nextQuestion response = None"
    and "no_attempt_started Number numToString es
           (fst (handleSubmitAnswer Number submitExamAnswer s))"
  shows "currentQuestion (fst (handleSubmitAnswer Number submitExamAnswer s)) = None \<and>
    (let s' = run Number numToString es (fst (handleSubmitAnswer Number submitExamAnswer s))
     in currentQuestion s' = None \<and> disableAnswerSubmit s' \<and>
        handleSubmitAnswer Number api s' = (s', []))"
proof -
  let ?s1 = "fst (handleSubmitAnswer Number submitExamAnswer s)"
  have done1: "currentQuestion ?s1 = None"
    using assms(1-4) by (simp add: handleSubmitAnswer_def Let_def)
  have later: "currentQuestion (run Number numToString es ?s1) = None"
    using done1 assms(5) by (rule run_currentQuestion_None)
  show ?thesis
    using done1 later
    by (simp add: Let_def disableAnswerSubmit_def handleSubmitAnswer_def split: option.splits)
qed

text \<open>
  C1, an instance: the demo attempt on its multiple-choice question, option 2 chosen, the
  backend answering that no question is left. Afterwards the user types an answer and
  presses submit again, clears the student id and presses Start Exam (refused), fills it
  in again and presses Start Exam while the backend answers 500 (failed), asks for the
  summary (which fails) and creates a template.
\<close>

theorem completed_attempt_blocks_submission_witness:
  "currentQuestion
     (fst (handleSubmitAnswer demo_Number (\<lambda>i r. Inr demo_last_answer)
        (demo_screen MultipleChoice
           \<lparr>selectedOptionId_input = ''2'', freeTextAnswer_input = '''',
            timeTakenSeconds_input = ''30''\<rparr>))) = None \<and>
   disableAnswerSubmit
     (run demo_Number demo_numToString
        [SetFreeTextAnswer ''x'', SubmitAnswer (\<lambda>i r. Inr demo_last_answer),
         SetStartStudentId '''', StartExam (\<lambda>p. Inr demo_attempt),
         SetStartStudentId ''student-001'', StartExam (\<lambda>p. Inl (ApiError 500 ''Server error'')),
         FetchSummary (\<lambda>i. Inl NonErrorValue), CreateTemplate (\<lambda>p. Inr demo_template)]
        (fst (handleSubmitAnswer demo_Number (\<lambda>i r. Inr demo_last_answer)
           (demo_screen MultipleChoice
              \<lparr>selectedOptionId_input = ''2'', freeTextAnswer_input = '''',
               timeTakenSeconds_input = ''30''\<rparr>)))) \<and>
   snd (handleSubmitAnswer demo_Number (\<lambda>i r. Inr demo_last_answer)
     (run demo_Number demo_numToString
        [SetFreeTextAnswer ''x'', SubmitAnswer (\<lambda>i r. Inr demo_last_answer),
         SetStartStudentId '''', StartExam (\<lambda>p. Inr demo_attempt),
         SetStartStudentId ''student-001'', StartExam (\<lambda>p. Inl (ApiError 500 ''Server error'')),
         FetchSummary (\<lambda>i. Inl NonErrorValue), CreateTemplate (\<lambda>p. Inr demo_template)]
        (fst (handleSubmitAnswer demo_Number (\<lambda>i r. Inr demo_last_answer)
           (demo_screen MultipleChoice
              \<lparr>selectedOptionId_input = ''2'', freeTextAnswer_input = '''',
               timeTakenSeconds_input = ''30''\<rparr>))))) = []"
proof -
  let ?form = "\<lparr>selectedOptionId_input = ''2'', freeTextAnswer_input = '''',
                 timeTakenSeconds_input = ''30''\<rparr>"
  let ?s = "demo_screen MultipleChoice ?form"
  let ?api = "\<lambda>(i::jsnum) (r::SubmitAnswerRequest). (Inr demo_last_answer :: thrown + SubmitAnswerResponse)"
  let ?es = "[SetFreeTextAnswer ''x'', SubmitAnswer ?api,
         SetStartStudentId '''', StartExam (\<lambda>p. Inr demo_attempt),
         SetStartStudentId ''student-001'', StartExam (\<lambda>p. Inl (ApiError 500 ''Server error'')),
         FetchSummary (\<lambda>i. Inl NonErrorValue), CreateTemplate (\<lambda>p. Inr demo_template)]"
  have h1: "activeAttempt ?s = Some demo_attempt"
    by (simp add: demo_screen_def)
  have h2: "currentQuestion ?s = Some (demo_question MultipleChoice)"
    by (simp add: demo_screen_def)
  have h3: "?api (attemptId demo_attempt)
      (submitAnswerRequest demo_Number (demo_question MultipleChoice) (answerState ?s)) =
      Inr demo_last_answer"
    by simp
  have h4: "nextQuestion demo_last_answer = None"
    by (simp add: demo_last_answer_def)
  have h5: "no_attempt_started demo_Number demo_numToString ?es
      (fst (handleSubmitAnswer demo_Number ?api ?s))"
    by (simp add: handleSubmitAnswer_def handleStartExam_def demo_screen_def
        demo_last_answer_def Let_def)
  have "currentQuestion (fst (handleSubmitAnswer demo_Number ?api ?s)) = None \<and>
    (let s' = run demo_Number demo_numToString ?es (fst (handleSubmitAnswer demo_Number ?api ?s))
     in currentQuestion s' = None \<and> disableAnswerSubmit s' \<and>
        handleSubmitAnswer demo_Number ?api s' = (s', []))"
    using h1 h2 h3 h4 h5
    by (rule completed_attempt_blocks_submission
          [where s = "?s" and a = demo_attempt and q = "demo_question MultipleChoice"
             and submitExamAnswer = "?api" and Number = demo_Number
             and response = demo_last_answer and es = "?es"
             and numToString = demo_numToString and api = "?api"])
  then show ?thesis
    unfolding Let_def by simp
qed

subsection \<open>The answer that is submitted\<close>

lemma trim_examples:
  "trim padded_answer = ''x = 2''"
  "trim blank_answer = []"
  "trim ''student-001'' = ''student-001''"
  by code_simp+

text \<open>
  C2. With an active attempt and a current question, \<^verbatim>\<open>handleSubmitAnswer\<close> sends one
  request, for the current question. If the question is \<^verbatim>\<open>MultipleChoice\<close>,
  \<^verbatim>\<open>selectedOptionId\<close> is a finite number (the entered option id through \<^verbatim>\<open>toNumber\<close>) and
  \<^verbatim>\<open>freeTextAnswer\<close> is null. For any other type, \<^verbatim>\<open>selectedOptionId\<close> is null and
  \<^verbatim>\<open>freeTextAnswer\<close> is the trimmed text, or null when that is empty. In every case
  \<^verbatim>\<open>timeTakenSeconds\<close> is the larger of 0 and the entered time (a finite number \<open>t\<close>
  through \<^verbatim>\<open>toNumber\<close>), so it is at least 0.
\<close>

theorem submit_answer_request_shape:
  assumes "activeAttempt s = Some a" and "currentQuestion s = Some q"
  shows "\<exists>r fx t.
     snd (handleSubmitAnswer Number submitExamAnswer s) =
       Call_submitExamAnswer (attemptId a) r # fx \<and>
     questionId r = question_id q \<and>
     (question_type q = MultipleChoice \<longrightarrow>
        (\<exists>x. selectedOptionId r = Some (Fin x)) \<and>
        selectedOptionId r = Some (toNumber Number (selectedOptionId_input (answerState s))) \<and>
        freeTextAnswer r = None) \<and>
     (question_type q \<noteq> MultipleChoice \<longrightarrow>
        selectedOptionId r = None \<and>
        freeTextAnswer r =
          (if trim (freeTextAnswer_input (answerState s)) = [] then None
           else Some (trim (freeTextAnswer_input (answerState s))))) \<and>
     toNumber Number (timeTakenSeconds_input (answerState s)) = Fin t \<and>
     timeTakenSeconds r =
       Math_max (Fin 0) (toNumber Number (timeTakenSeconds_input (answerState s))) \<and>
     timeTakenSeconds r = Fin (max 0 t) \<and>
     at_least 0 (timeTakenSeconds r)"
proof -
  obtain x where x: "toNumber Number (selectedOptionId_input (answerState s)) = Fin x"
    using toNumber_finite by blast
  obtain t where t: "toNumber Number (timeTakenSeconds_input (answerState s)) = Fin t"
    using toNumber_finite by blast
  show ?thesis
    using assms x t
    by (auto simp: handleSubmitAnswer_def submitAnswerRequest_def or_null_def Let_def
        split: sum.splits prod.splits)
qed

text \<open>
  C2, three instances: the multiple-choice question with option 2 chosen and 30 seconds; a
  short-answer question with the text \<open>x = 2\<close> between blanks and no-break spaces and
  \<open>-5\<close> seconds; and a true-false question whose text is only white space.
\<close>

theorem submit_answer_request_shape_witness:
  "(\<exists>r fx.
      snd (handleSubmitAnswer demo_Number (\<lambda>i r. Inr demo_last_answer)
        (demo_screen MultipleChoice
           \<lparr>selectedOptionId_input = ''2'', freeTextAnswer_input = ''ignored'',
            timeTakenSeconds_input = ''30''\<rparr>)) = Call_submitExamAnswer (Fin 7) r # fx \<and>
      questionId r = Fin 7 \<and> selectedOptionId r = Some (Fin 2) \<and> freeTextAnswer r = None \<and>
      timeTakenSeconds r = Fin 30) \<and>
   (\<exists>r fx.
      snd (handleSubmitAnswer demo_Number (\<lambda>i r. Inr demo_last_answer)
        (demo_screen ShortAnswer
           \<lparr>selectedOptionId_input = ''2'',
            freeTextAnswer_input = padded_answer,
            timeTakenSeconds_input = ''-5''\<rparr>)) = Call_submitExamAnswer (Fin 7) r # fx \<and>
      questionId r = Fin 7 \<and> selectedOptionId r = None \<and> freeTextAnswer r = Some ''x = 2'' \<and>
      timeTakenSeconds r = Fin 0) \<and>
   (\<exists>r fx.
      snd (handleSubmitAnswer demo_Number (\<lambda>i r. Inr demo_last_answer)
        (demo_screen TrueFalse
           \<lparr>selectedOptionId_input = '''',
            freeTextAnswer_input = blank_answer,
            timeTakenSeconds_input = ''0''\<rparr>)) = Call_submitExamAnswer (Fin 7) r # fx \<and>
      questionId r = Fin 7 \<and> selectedOptionId r = None \<and> freeTextAnswer r = None \<and>
      timeTakenSeconds r = Fin 0)"
proof -
  let ?api = "\<lambda>(i::jsnum) (r::SubmitAnswerRequest). (Inr demo_last_answer :: thrown + SubmitAnswerResponse)"
  let ?mc = "demo_screen MultipleChoice
           \<lparr>selectedOptionId_input = ''2'', freeTextAnswer_input = ''ignored'',
            timeTakenSeconds_input = ''30''\<rparr>"
  let ?sa = "demo_screen ShortAnswer
           \<lparr>selectedOptionId_input = ''2'',
            freeTextAnswer_input = padded_answer,
            timeTakenSeconds_input = ''-5''\<rparr>"
  let ?tf = "demo_screen TrueFalse
           \<lparr>selectedOptionId_input = '''',
            freeTextAnswer_input = blank_answer,
            timeTakenSeconds_input = ''0''\<rparr>"
  have a_mc: "activeAttempt ?mc = Some demo_attempt" and a_sa: "activeAttempt ?sa = Some demo_attempt"
    and a_tf: "activeAttempt ?tf = Some demo_attempt"
    by (simp_all add: demo_screen_def)
  have q_mc: "currentQuestion ?mc = Some (demo_question MultipleChoice)"
    and q_sa: "currentQuestion ?sa = Some (demo_question ShortAnswer)"
    and q_tf: "currentQuestion ?tf = Some (demo_question TrueFalse)"
    by (simp_all add: demo_screen_def)
  have id7: "attemptId demo_attempt = Fin 7" "question_id (demo_question ty) = Fin 7" for ty
    by (simp_all add: demo_attempt_def demo_question_def)
  have ty: "question_type (demo_question MultipleChoice) = MultipleChoice"
    "question_type (demo_question ShortAnswer) \<noteq> MultipleChoice"
    "question_type (demo_question TrueFalse) \<noteq> MultipleChoice"
    by (simp_all add: demo_question_def)
  have sel: "toNumber demo_Number (selectedOptionId_input (answerState ?mc)) = Fin 2"
    by (simp add: demo_screen_def toNumber_def demo_Number_def)
  have secs: "toNumber demo_Number (timeTakenSeconds_input (answerState ?mc)) = Fin 30"
    "toNumber demo_Number (timeTakenSeconds_input (answerState ?sa)) = Fin (- 5)"
    "toNumber demo_Number (timeTakenSeconds_input (answerState ?tf)) = Fin 0"
    by (simp_all add: demo_screen_def toNumber_def demo_Number_def)
  have trimmed: "trim (freeTextAnswer_input (answerState ?sa)) = ''x = 2''"
    "trim (freeTextAnswer_input (answerState ?tf)) = []"
    by (simp_all add: demo_screen_def trim_examples)
  have first: "\<exists>r fx.
      snd (handleSubmitAnswer demo_Number ?api ?mc) = Call_submitExamAnswer (Fin 7) r # fx \<and>
      questionId r = Fin 7 \<and> selectedOptionId r = Some (Fin 2) \<and> freeTextAnswer r = None \<and>
      timeTakenSeconds r = Fin 30"
    using submit_answer_request_shape [OF a_mc q_mc, of demo_Number ?api] ty(1) sel secs(1) id7
    by auto
  have second: "\<exists>r fx.
      snd (handleSubmitAnswer demo_Number ?api ?sa) = Call_submitExamAnswer (Fin 7) r # fx \<and>
      questionId r = Fin 7 \<and> selectedOptionId r = None \<and> freeTextAnswer r = Some ''x = 2'' \<and>
      timeTakenSeconds r = Fin 0"
    using submit_answer_request_shape [OF a_sa q_sa, of demo_Number ?api] ty(2) trimmed(1)
      secs(2) id7
    by auto
  have third: "\<exists>r fx.
      snd (handleSubmitAnswer demo_Number ?api ?tf) = Call_submitExamAnswer (Fin 7) r # fx \<and>
      questionId r = Fin 7 \<and> selectedOptionId r = None \<and> freeTextAnswer r = None \<and>
      timeTakenSeconds r = Fin 0"
    using submit_answer_request_shape [OF a_tf q_tf, of demo_Number ?api] ty(3) trimmed(2)
      secs(3) id7
    by auto
  from first second third show ?thesis by blast
qed

subsection \<open>Creating a template\<close>

text \<open>
  C3. In every state the screen can reach (any sequence of events from the initial state),
  the template form holds finite numbers, and \<^verbatim>\<open>handleCreateTemplate\<close> always sends a
  request: the form with \<^verbatim>\<open>totalQuestions\<close> and \<^verbatim>\<open>durationMinutes\<close> each replaced by the
  larger of 1 and the entered value. When the call succeeds, the created template is
  stored and the active attempt, the current question and the summary are null.
\<close>

theorem create_template_clamps_and_resets:
  "let s = run Number numToString es initialExamScreen;
       out = handleCreateTemplate numToString createExamTemplate s
   in \<exists>tq dm fx.
        totalQuestions (templatePayload s) = Fin tq \<and>
        durationMinutes (templatePayload s) = Fin dm \<and>
        snd out =
          Call_createExamTemplate
            ((templatePayload s)\<lparr>totalQuestions := Fin (max 1 tq),
                                 durationMinutes := Fin (max 1 dm)\<rparr>) # fx \<and>
        (\<forall>result.
           createExamTemplate
             ((templatePayload s)\<lparr>totalQuestions := Fin (max 1 tq),
                                  durationMinutes := Fin (max 1 dm)\<rparr>) = Inr result \<longrightarrow>
           createdTemplate (fst out) = Some result \<and> activeAttempt (fst out) = None \<and>
           currentQuestion (fst out) = None \<and> summary (fst out) = None)"
proof -
  let ?s = "run Number numToString es initialExamScreen"
  have "finite_payload (templatePayload ?s)"
    using initial_finite_payload by (rule run_finite_payload)
  then obtain tq dm where "totalQuestions (templatePayload ?s) = Fin tq"
    and "durationMinutes (templatePayload ?s) = Fin dm"
    by (rule finite_payload_cases)
  then show ?thesis
    by (auto simp: handleCreateTemplate_def createTemplatePayload_def Let_def split: sum.splits)
qed

text \<open>
  C3, an instance: the user enters 0 questions and -5 minutes and presses Create; the
  request carries 1 and 1, and the backend's template is stored.
\<close>

theorem create_template_clamps_and_resets_witness:
  "snd (handleCreateTemplate demo_numToString (\<lambda>p. Inr demo_template)
          (run demo_Number demo_numToString
             [TemplateChange F_totalQuestions ''0'', TemplateChange F_durationMinutes ''-5'']
             initialExamScreen)) =
     [Call_createExamTemplate
        (defaultTemplatePayload\<lparr>totalQuestions := Fin 1, durationMinutes := Fin 1\<rparr>),
      Alert ''Template created'' ''Template ID: 1''] \<and>
   createdTemplate
     (fst (handleCreateTemplate demo_numToString (\<lambda>p. Inr demo_template)
          (run demo_Number demo_numToString
             [TemplateChange F_totalQuestions ''0'', TemplateChange F_durationMinutes ''-5'']
             initialExamScreen))) = Some demo_template \<and>
   currentQuestion
     (fst (handleCreateTemplate demo_numToString (\<lambda>p. Inr demo_template)
          (run demo_Number demo_numToString
             [TemplateChange F_totalQuestions ''0'', TemplateChange F_durationMinutes ''-5'']
             initialExamScreen))) = None"
proof -
  let ?api = "\<lambda>p::ExamTemplateRequest. (Inr demo_template :: thrown + ExamTemplateResponse)"
  let ?es = "[TemplateChange F_totalQuestions ''0'', TemplateChange F_durationMinutes ''-5'']"
  let ?s = "run demo_Number demo_numToString ?es initialExamScreen"
  let ?out = "handleCreateTemplate demo_numToString ?api ?s"
  have form: "templatePayload ?s =
      defaultTemplatePayload\<lparr>totalQuestions := Fin 0, durationMinutes := Fin (- 5)\<rparr>"
    by (simp add: handleTemplateChange_def toNumber_def demo_Number_def initialExamScreen_def)
  obtain tq dm fx where tq: "totalQuestions (templatePayload ?s) = Fin tq"
    and dm: "durationMinutes (templatePayload ?s) = Fin dm"
    and stored: "\<forall>result.
           ?api ((templatePayload ?s)\<lparr>totalQuestions := Fin (max 1 tq),
                                  durationMinutes := Fin (max 1 dm)\<rparr>) = Inr result \<longrightarrow>
           createdTemplate (fst ?out) = Some result \<and> activeAttempt (fst ?out) = None \<and>
           currentQuestion (fst ?out) = None \<and> summary (fst ?out) = None"
    using create_template_clamps_and_resets
      [of demo_Number demo_numToString ?es ?api]
    unfolding Let_def by blast
  from stored have after: "createdTemplate (fst ?out) = Some demo_template"
    "currentQuestion (fst ?out) = None"
    by simp_all
  have sent: "snd ?out =
     [Call_createExamTemplate
        (defaultTemplatePayload\<lparr>totalQuestions := Fin 1, durationMinutes := Fin 1\<rparr>),
      Alert ''Template created'' ''Template ID: 1'']"
    unfolding handleCreateTemplate_def createTemplatePayload_def Let_def form
    by (simp add: demo_template_def demo_numToString_def)
  from sent after show ?thesis by simp
qed

subsection \<open>Failed calls\<close>

text \<open>
  C4. For each of the five operations (create template, start attempt, submit answer,
  fetch summary, fetch history): when the exam client call that the handler makes throws,
  the dialog of \<^verbatim>\<open>handleError\<close> for the thrown value is shown, and the created template,
  active attempt, current question, last answer response, summary and history are what
  they were before the call.
\<close>

theorem failed_call_keeps_workflow:
  "(createExamTemplate (createTemplatePayload (templatePayload s)) = Inl err \<longrightarrow>
      workflow (fst (handleCreateTemplate numToString createExamTemplate s)) = workflow s \<and>
      handleError err \<in> set (snd (handleCreateTemplate numToString createExamTemplate s))) \<and>
   (studentId_input (startForm s) \<noteq> [] \<and> examTemplateId_input (startForm s) \<noteq> [] \<and>
    startExam (startExamPayload Number (startForm s)) = Inl err \<longrightarrow>
      workflow (fst (handleStartExam Number startExam s)) = workflow s \<and>
      handleError err \<in> set (snd (handleStartExam Number startExam s))) \<and>
   (activeAttempt s = Some a \<and> currentQuestion s = Some q \<and>
    submitExamAnswer (attemptId a) (submitAnswerRequest Number q (answerState s)) = Inl err \<longrightarrow>
      workflow (fst (handleSubmitAnswer Number submitExamAnswer s)) = workflow s \<and>
      handleError err \<in> set (snd (handleSubmitAnswer Number submitExamAnswer s))) \<and>
   (activeAttempt s = Some a \<and> getExamSummary (attemptId a) = Inl err \<longrightarrow>
      workflow (fst (handleFetchSummary getExamSummary s)) = workflow s \<and>
      handleError err \<in> set (snd (handleFetchSummary getExamSummary s))) \<and>
   (trim (historyStudentId s) \<noteq> [] \<and> getExamHistory (trim (historyStudentId s)) = Inl err \<longrightarrow>
      workflow (fst (handleFetchHistory getExamHistory s)) = workflow s \<and>
      handleError err \<in> set (snd (handleFetchHistory getExamHistory s)))"
  by (simp add: workflow_def handleCreateTemplate_def handleStartExam_def handleSubmitAnswer_def
      handleFetchSummary_def handleFetchHistory_def Let_def)

text \<open>
  C4, an instance: the attempt in progress, with the backend answering every call with
  status 500; each handler shows \<open>Request failed: Server error\<close> and keeps the workflow.
\<close>

theorem failed_call_keeps_workflow_witness:
  "workflow (fst (handleCreateTemplate demo_numToString (\<lambda>p. Inl (ApiError 500 ''Server error''))
       (demo_screen ShortAnswer defaultAnswerState))) =
     workflow (demo_screen ShortAnswer defaultAnswerState) \<and>
   Alert ''Request failed'' ''Server error'' \<in>
     set (snd (handleCreateTemplate demo_numToString (\<lambda>p. Inl (ApiError 500 ''Server error''))
       (demo_screen ShortAnswer defaultAnswerState))) \<and>
   workflow (fst (handleStartExam demo_Number (\<lambda>p. Inl (ApiError 500 ''Server error''))
       (demo_screen ShortAnswer defaultAnswerState))) =
     workflow (demo_screen ShortAnswer defaultAnswerState) \<and>
   Alert ''Request failed'' ''Server error'' \<in>
     set (snd (handleStartExam demo_Number (\<lambda>p. Inl (ApiError 500 ''Server error''))
       (demo_screen ShortAnswer defaultAnswerState))) \<and>
   workflow (fst (handleSubmitAnswer demo_Number (\<lambda>i r. Inl (ApiError 500 ''Server error''))
       (demo_screen ShortAnswer defaultAnswerState))) =
     workflow (demo_screen ShortAnswer defaultAnswerState) \<and>
   Alert ''Request failed'' ''Server error'' \<in>
     set (snd (handleSubmitAnswer demo_Number (\<lambda>i r. Inl (ApiError 500 ''Server error''))
       (demo_screen ShortAnswer defaultAnswerState))) \<and>
   workflow (fst (handleFetchSummary (\<lambda>i. Inl (ApiError 500 ''Server error''))
       (demo_screen ShortAnswer defaultAnswerState))) =
     workflow (demo_screen ShortAnswer defaultAnswerState) \<and>
   Alert ''Request failed'' ''Server error'' \<in>
     set (snd (handleFetchSummary (\<lambda>i. Inl (ApiError 500 ''Server error''))
       (demo_screen ShortAnswer defaultAnswerState))) \<and>
   workflow (fst (handleFetchHistory (\<lambda>i. Inl (ApiError 500 ''Server error''))
       (demo_screen ShortAnswer defaultAnswerState))) =
     workflow (demo_screen ShortAnswer defaultAnswerState) \<and>
   Alert ''Request failed'' ''Server error'' \<in>
     set (snd (handleFetchHistory (\<lambda>i. Inl (ApiError 500 ''Server error''))
       (demo_screen ShortAnswer defaultAnswerState)))"
proof -
  let ?s = "demo_screen ShortAnswer defaultAnswerState"
  let ?err = "ApiError 500 ''Server error''"
  have form: "studentId_input (startForm ?s) \<noteq> []" "examTemplateId_input (startForm ?s) \<noteq> []"
    by (simp_all add: demo_screen_def)
  have att: "activeAttempt ?s = Some demo_attempt"
    "currentQuestion ?s = Some (demo_question ShortAnswer)"
    by (simp_all add: demo_screen_def)
  have student: "trim (historyStudentId ?s) \<noteq> []"
    by (simp add: demo_screen_def trim_examples)
  have shown: "handleError ?err = Alert ''Request failed'' ''Server error''"
    by (simp add: handleError_def)
  note inst = failed_call_keeps_workflow
    [where s = "?s" and err = "?err" and a = demo_attempt and q = "demo_question ShortAnswer"
       and createExamTemplate = "\<lambda>p. Inl ?err" and startExam = "\<lambda>p. Inl ?err"
       and submitExamAnswer = "\<lambda>i r. Inl ?err" and getExamSummary = "\<lambda>i. Inl ?err"
       and getExamHistory = "\<lambda>i. Inl ?err" and Number = demo_Number
       and numToString = demo_numToString]
  show ?thesis
    using inst form att student unfolding shown by blast
qed

section \<open>API client layer\<close>

subsection \<open>The most recent session\<close>

text \<open>
  C5. \<^verbatim>\<open>fetchMostRecentSessionId\<close> never raises: whatever \<^verbatim>\<open>fetch\<close> and \<^verbatim>\<open>JSON.parse\<close>
  do, it returns a value. It returns null when \<^verbatim>\<open>fetch\<close> fails, when the HTTP status is
  not a success, when reading the body fails and when the body is not valid JSON. When it
  returns something other than null, the HTTP status was a success, the body was valid
  JSON, and the value is the \<^verbatim>\<open>sessionId\<close> member of the body.
\<close>

theorem fetchMostRecentSessionId_never_raises:
  "(\<exists>v. fetchMostRecentSessionId JSON_parse fetched = Inr v) \<and>
   (\<forall>e. fetched = Inl e \<longrightarrow> fetchMostRecentSessionId JSON_parse fetched = Inr JNull) \<and>
   (\<forall>response. fetched = Inr response \<and> \<not> ok response \<longrightarrow>
      fetchMostRecentSessionId JSON_parse fetched = Inr JNull) \<and>
   (\<forall>response e. fetched = Inr response \<and> body response = Inl e \<longrightarrow>
      fetchMostRecentSessionId JSON_parse fetched = Inr JNull) \<and>
   (\<forall>response raw. fetched = Inr response \<and> body response = Inr raw \<and> JSON_parse raw = None \<longrightarrow>
      fetchMostRecentSessionId JSON_parse fetched = Inr JNull) \<and>
   (\<forall>v. fetchMostRecentSessionId JSON_parse fetched = Inr v \<and> v \<noteq> JNull \<longrightarrow>
      (\<exists>response raw data. fetched = Inr response \<and> ok response \<and> body response = Inr raw \<and>
         JSON_parse raw = Some data \<and> get_field ''sessionId'' data = Some v))"
  by (auto simp: fetchMostRecentSessionId_def fetchMostRecentSessionId_try_def response_json_def
      nullish_or_def split: sum.splits option.splits json.splits if_splits)

text \<open>
  C5, four instances: a network failure, an HTTP 500, a 200 whose body is not JSON, and a
  200 whose body carries the session \<open>abc\<close>.
\<close>

theorem fetchMostRecentSessionId_never_raises_witness:
  "fetchMostRecentSessionId demo_JSON_parse (Inl (OtherError ''Network request failed'')) =
     Inr JNull \<and>
   fetchMostRecentSessionId demo_JSON_parse
     (Inr \<lparr>status = 500, statusText = ''Internal Server Error'', body = Inr ''{sid}''\<rparr>) =
     Inr JNull \<and>
   fetchMostRecentSessionId demo_JSON_parse
     (Inr \<lparr>status = 200, statusText = ''OK'', body = Inr ''<html>''\<rparr>) = Inr JNull \<and>
   fetchMostRecentSessionId demo_JSON_parse
     (Inr \<lparr>status = 200, statusText = ''OK'', body = Inr ''{sid}''\<rparr>) = Inr (JStr ''abc'')"
proof -
  let ?down = "Inl (OtherError ''Network request failed'') :: thrown + Response"
  let ?r500 = "\<lparr>status = 500, statusText = ''Internal Server Error'', body = Inr ''{sid}''\<rparr>"
  let ?html = "\<lparr>status = 200, statusText = ''OK'', body = Inr ''<html>''\<rparr>"
  let ?good = "\<lparr>status = 200, statusText = ''OK'', body = Inr ''{sid}''\<rparr>"
  have 1: "fetchMostRecentSessionId demo_JSON_parse ?down = Inr JNull"
    using fetchMostRecentSessionId_never_raises [of demo_JSON_parse ?down] by blast
  have "\<not> ok ?r500"
    by (simp add: ok_def)
  then have 2: "fetchMostRecentSessionId demo_JSON_parse (Inr ?r500) = Inr JNull"
    using fetchMostRecentSessionId_never_raises [of demo_JSON_parse "Inr ?r500"] by blast
  have "body ?html = Inr ''<html>''" and "demo_JSON_parse ''<html>'' = None"
    by (simp_all add: demo_JSON_parse_def)
  then have 3: "fetchMostRecentSessionId demo_JSON_parse (Inr ?html) = Inr JNull"
    using fetchMostRecentSessionId_never_raises [of demo_JSON_parse "Inr ?html"] by blast
  have 4: "fetchMostRecentSessionId demo_JSON_parse (Inr ?good) = Inr (JStr ''abc'')"
    by (simp add: fetchMostRecentSessionId_def fetchMostRecentSessionId_try_def ok_def
        response_json_def demo_JSON_parse_def)
  from 1 2 3 4 show ?thesis by blast
qed

subsection \<open>The request helper of the exam client\<close>




section \<open>Chat workflow\<close>

subsection \<open>Follow-up prompts\<close>

text \<open>
  The texts of the examples, lowercased and trimmed. The first nine have only ASCII
  characters and come out the same under every case mapping.
\<close>

lemma lowered_examples:
  "trim (toLowerCase lowerNonAscii ''No'') = ''no''"
  "trim (toLowerCase lowerNonAscii ''NOPE'') = ''nope''"
  "trim (toLowerCase lowerNonAscii ''I Disagree'') = ''i disagree''"
  "trim (toLowerCase lowerNonAscii ''i don't think so'') = ''i don't think so''"
  "trim (toLowerCase lowerNonAscii ''Yes please'') = ''yes please''"
  "trim (toLowerCase lowerNonAscii ''  Disagree  '') = ''disagree''"
  "trim (toLowerCase lowerNonAscii tabbed_no) = ''no''"
  "trim (toLowerCase lowerNonAscii ''  NO thanks'') = ''no thanks''"
  "trim (toLowerCase lowerNonAscii ''Nobody knows'') = ''nobody knows''"
  "trim (toLowerCase demo_lowerNonAscii no_nbsp) = ''no''"
  by code_simp+

text \<open>
  C7. In a send cycle that is answered, when the response carries a follow-up suggestion (a
  non-empty \<^verbatim>\<open>followUpQuestion\<close>): if the sent text, lowercased and trimmed, is \<open>no\<close>,
  \<open>nope\<close>, \<open>disagree\<close> or \<open>i disagree\<close>, or starts with \<open>no\<close> and a blank or with
  \<open>i don't\<close>, no follow-up prompt is pending afterwards; otherwise the pending prompt is
  the suggestion, whatever was pending before. When the response carries no suggestion, no
  prompt is pending afterwards.
\<close>

theorem follow_up_suppression:
  assumes "finalText textToSend s \<noteq> []"
    and "sendChatMessage \<lparr>question = finalText textToSend s, request_sessionId = sessionId s\<rparr> =
           Inr response"
  shows "(\<forall>suggestion.
            response_followUpQuestion response = Some suggestion \<and> suggestion \<noteq> [] \<longrightarrow>
            followUpQuestion (handleSend lowerNonAscii st sendChatMessage textToSend s) =
              (let lowerText = trim (toLowerCase lowerNonAscii (finalText textToSend s))
               in if lowerText \<in> {''no'', ''nope'', ''disagree'', ''i disagree''} \<or>
                     startsWith lowerText ''no '' \<or> startsWith lowerText ''i don't''
                  then None else Some suggestion)) \<and>
         (\<not> nonempty (response_followUpQuestion response) \<longrightarrow>
            followUpQuestion (handleSend lowerNonAscii st sendChatMessage textToSend s) = None)"
  using assms by (auto simp: handleSend_def Let_def isDisagreement_def)

text \<open>
  C7, ten inputs, each sent while \<open>Old prompt\<close> is pending and answered with the
  suggestion \<open>Want an example?\<close>: the five of the specification; \<open>Disagree\<close> between
  blanks; \<open>No\<close> between a tab and a line feed; \<open>no\<close> followed by a no-break space;
  \<open>NO thanks\<close> after blanks; and \<open>Nobody knows\<close>, which only starts with \<open>no\<close>.
\<close>

theorem follow_up_suppression_witness:
  "followUpQuestion (handleSend demo_lowerNonAscii demo_stamps demo_suggesting
      (Some ''No'') demo_chat) = None \<and>
   followUpQuestion (handleSend demo_lowerNonAscii demo_stamps demo_suggesting
      (Some ''NOPE'') demo_chat) = None \<and>
   followUpQuestion (handleSend demo_lowerNonAscii demo_stamps demo_suggesting
      (Some ''I Disagree'') demo_chat) = None \<and>
   followUpQuestion (handleSend demo_lowerNonAscii demo_stamps demo_suggesting
      (Some ''i don't think so'') demo_chat) = None \<and>
   followUpQuestion (handleSend demo_lowerNonAscii demo_stamps demo_suggesting
      (Some ''Yes please'') demo_chat) = Some ''Want an example?'' \<and>
   followUpQuestion (handleSend demo_lowerNonAscii demo_stamps demo_suggesting
      (Some ''  Disagree  '') demo_chat) = None \<and>
   followUpQuestion (handleSend demo_lowerNonAscii demo_stamps demo_suggesting
      (Some tabbed_no) demo_chat) = None \<and>
   followUpQuestion (handleSend demo_lowerNonAscii demo_stamps demo_suggesting
      (Some no_nbsp) demo_chat) = None \<and>
   followUpQuestion (handleSend demo_lowerNonAscii demo_stamps demo_suggesting
      (Some ''  NO thanks'') demo_chat) = None \<and>
   followUpQuestion (handleSend demo_lowerNonAscii demo_stamps demo_suggesting
      (Some ''Nobody knows'') demo_chat) = Some ''Want an example?''"
proof -
  have sent: "finalText (Some t) demo_chat = t" for t
    by (simp add: finalText_def)
  have answered: "demo_suggesting
      \<lparr>question = finalText (Some t) demo_chat, request_sessionId = sessionId demo_chat\<rparr> =
      Inr (demo_response (Some ''Sure.'') None)" for t
    by (simp add: demo_suggesting_def demo_sendChatMessage_def)
  have offered: "response_followUpQuestion (demo_response (Some ''Sure.'') None) =
      Some ''Want an example?''" "''Want an example?'' \<noteq> []"
    by (simp_all add: demo_response_def)
  have rule: "followUpQuestion (handleSend demo_lowerNonAscii demo_stamps demo_suggesting
        (Some t) demo_chat) =
     (let lowerText = trim (toLowerCase demo_lowerNonAscii t)
      in if lowerText \<in> {''no'', ''nope'', ''disagree'', ''i disagree''} \<or>
            startsWith lowerText ''no '' \<or> startsWith lowerText ''i don't''
         then None else Some ''Want an example?'')" if "t \<noteq> []" for t
    using follow_up_suppression [where textToSend = "Some t" and s = demo_chat
        and sendChatMessage = demo_suggesting and st = demo_stamps
        and lowerNonAscii = demo_lowerNonAscii, OF _ answered] offered that
    by (simp add: sent)
  have nonempty_inputs: "tabbed_no \<noteq> []" "no_nbsp \<noteq> []"
    by (simp_all add: tabbed_no_def no_nbsp_def)
  have 1: "followUpQuestion (handleSend demo_lowerNonAscii demo_stamps demo_suggesting
      (Some ''No'') demo_chat) = None"
    by (simp add: rule lowered_examples(1))
  have 2: "followUpQuestion (handleSend demo_lowerNonAscii demo_stamps demo_suggesting
      (Some ''NOPE'') demo_chat) = None"
    by (simp add: rule lowered_examples(2))
  have 3: "followUpQuestion (handleSend demo_lowerNonAscii demo_stamps demo_suggesting
      (Some ''I Disagree'') demo_chat) = None"
    by (simp add: rule lowered_examples(3))
  have 4: "followUpQuestion (handleSend demo_lowerNonAscii demo_stamps demo_suggesting
      (Some ''i don't think so'') demo_chat) = None"
    by (simp add: rule lowered_examples(4) startsWith_def)
  have 5: "followUpQuestion (handleSend demo_lowerNonAscii demo_stamps demo_suggesting
      (Some ''Yes please'') demo_chat) = Some ''Want an example?''"
    by (simp add: rule lowered_examples(5) startsWith_def)
  have 6: "followUpQuestion (handleSend demo_lowerNonAscii demo_stamps demo_suggesting
      (Some ''  Disagree  '') demo_chat) = None"
    by (simp add: rule lowered_examples(6))
  have 7: "followUpQuestion (handleSend demo_lowerNonAscii demo_stamps demo_suggesting
      (Some tabbed_no) demo_chat) = None"
    by (simp add: rule nonempty_inputs lowered_examples(7))
  have 8: "followUpQuestion (handleSend demo_lowerNonAscii demo_stamps demo_suggesting
      (Some no_nbsp) demo_chat) = None"
    by (simp add: rule nonempty_inputs lowered_examples(10))
  have 9: "followUpQuestion (handleSend demo_lowerNonAscii demo_stamps demo_suggesting
      (Some ''  NO thanks'') demo_chat) = None"
    by (simp add: rule lowered_examples(8) startsWith_def)
  have 10: "followUpQuestion (handleSend demo_lowerNonAscii demo_stamps demo_suggesting
      (Some ''Nobody knows'') demo_chat) = Some ''Want an example?''"
    by (simp add: rule lowered_examples(9) startsWith_def)
  from 1 2 3 4 5 6 7 8 9 10 show ?thesis by blast
qed

subsection \<open>The reply text\<close>

text \<open>
  C8 as the specification words it fails: for a response whose \<^verbatim>\<open>reply\<close> is present but empty and
  whose \<^verbatim>\<open>answer\<close> is \<open>hello\<close>, the worded rule keeps the reply, the empty string; the
  bot message appended by \<^verbatim>\<open>handleSend\<close> says \<open>hello\<close>.
\<close>

theorem reply_text_counterexample:
  "msg_text (last (messages (handleSend demo_lowerNonAscii demo_stamps
       (demo_sendChatMessage (Some '''') (Some ''hello'')) (Some ''hi'')
       (initialChatScreen ''10:00 AM'')))) = ''hello'' \<and>
   msg_text (last (messages (handleSend demo_lowerNonAscii demo_stamps
       (demo_sendChatMessage (Some '''') (Some ''hello'')) (Some ''hi'')
       (initialChatScreen ''10:00 AM'')))) \<noteq>
   spec_replyText (demo_response (Some '''') (Some ''hello''))"
  by (simp add: handleSend_def finalText_def demo_sendChatMessage_def demo_response_def
      replyText_def str_or_def spec_replyText_def Let_def)

text \<open>
  C8, amended. In a successful send cycle the transcript grows by the user's message and
  then one bot message, whose text is the response's \<^verbatim>\<open>reply\<close> when that is present and
  not empty; else the \<^verbatim>\<open>answer\<close> when that is present and not empty; else the placeholder
  \<open>No response from server.\<close>
\<close>

theorem reply_text_fallback:
  assumes "finalText textToSend s \<noteq> []"
    and "sendChatMessage \<lparr>question = finalText textToSend s, request_sessionId = sessionId s\<rparr> =
           Inr response"
  shows "\<exists>botMsg.
     messages (handleSend lowerNonAscii st sendChatMessage textToSend s) =
       messages s @
       [\<lparr>msg_id = userMsg_id st, msg_text = finalText textToSend s, sender = User,
         time = userMsg_time st\<rparr>, botMsg] \<and>
     sender botMsg = Bot \<and>
     (\<forall>r. reply response = Some r \<and> r \<noteq> [] \<longrightarrow> msg_text botMsg = r) \<and>
     (\<forall>a. \<not> nonempty (reply response) \<and> answer response = Some a \<and> a \<noteq> [] \<longrightarrow>
          msg_text botMsg = a) \<and>
     (\<not> nonempty (reply response) \<and> \<not> nonempty (answer response) \<longrightarrow>
        msg_text botMsg = ''No response from server.'')"
  using assms by (auto simp: handleSend_def Let_def replyText_def str_or_def)

text \<open>
  C8 amended, three instances: a response with a reply and an answer, one with an answer
  only, and one with neither.
\<close>

theorem reply_text_fallback_witness:
  "msg_text (last (messages (handleSend demo_lowerNonAscii demo_stamps
       (demo_sendChatMessage (Some ''Hello!'') (Some ''other'')) (Some ''hi'')
       (initialChatScreen ''10:00 AM'')))) = ''Hello!'' \<and>
   msg_text (last (messages (handleSend demo_lowerNonAscii demo_stamps
       (demo_sendChatMessage None (Some ''other'')) (Some ''hi'')
       (initialChatScreen ''10:00 AM'')))) = ''other'' \<and>
   msg_text (last (messages (handleSend demo_lowerNonAscii demo_stamps
       (demo_sendChatMessage None None) (Some ''hi'')
       (initialChatScreen ''10:00 AM'')))) = ''No response from server.''"
proof -
  let ?s = "initialChatScreen ''10:00 AM''"
  have sent: "finalText (Some ''hi'') ?s \<noteq> []"
    by (simp add: finalText_def)
  have answered: "demo_sendChatMessage r a
      \<lparr>question = finalText (Some ''hi'') ?s, request_sessionId = sessionId ?s\<rparr> =
      Inr (demo_response r a)" for r a
    by (simp add: demo_sendChatMessage_def)
  have fields: "reply (demo_response r a) = r" "answer (demo_response r a) = a" for r a
    by (simp_all add: demo_response_def)
  have 1: "msg_text (last (messages (handleSend demo_lowerNonAscii demo_stamps
       (demo_sendChatMessage (Some ''Hello!'') (Some ''other'')) (Some ''hi'') ?s))) = ''Hello!''"
    using reply_text_fallback [where st = demo_stamps and lowerNonAscii = demo_lowerNonAscii and textToSend = "Some ''hi''" and s = "?s"
        and sendChatMessage = "demo_sendChatMessage (Some ''Hello!'') (Some ''other'')"
        and response = "demo_response (Some ''Hello!'') (Some ''other'')", OF sent answered]
    by (auto simp: fields)
  have 2: "msg_text (last (messages (handleSend demo_lowerNonAscii demo_stamps
       (demo_sendChatMessage None (Some ''other'')) (Some ''hi'') ?s))) = ''other''"
    using reply_text_fallback [where st = demo_stamps and lowerNonAscii = demo_lowerNonAscii and textToSend = "Some ''hi''" and s = "?s"
        and sendChatMessage = "demo_sendChatMessage (None) (Some ''other'')"
        and response = "demo_response (None) (Some ''other'')", OF sent answered]
    by (auto simp: fields)
  have 3: "msg_text (last (messages (handleSend demo_lowerNonAscii demo_stamps
       (demo_sendChatMessage None None) (Some ''hi'') ?s))) = ''No response from server.''"
    using reply_text_fallback [where st = demo_stamps and lowerNonAscii = demo_lowerNonAscii and textToSend = "Some ''hi''" and s = "?s"
        and sendChatMessage = "demo_sendChatMessage (None) (None)"
        and response = "demo_response (None) (None)", OF sent answered]
    by (auto simp: fields)
  from 1 2 3 show ?thesis by blast
qed

subsection \<open>Hydration from history\<close>

text \<open>The loop only appends to \<open>mapped\<close>, and runs over a concatenation part by part.\<close>

lemma forEach_entry_acc:
  "forEach_entry formatTimestamp numToString entry index mapped =
   mapped @ forEach_entry formatTimestamp numToString entry index []"
  by (simp add: forEach_entry_def Let_def split: option.splits)

lemma forEach_acc:
  "forEach formatTimestamp numToString items index mapped =
   mapped @ forEach formatTimestamp numToString items index []"
proof (induction items arbitrary: index mapped)
  case Nil
  then show ?case by simp
next
  case (Cons entry items)
  have "forEach formatTimestamp numToString (entry # items) index mapped =
      forEach_entry formatTimestamp numToString entry index mapped @
      forEach formatTimestamp numToString items (Suc index) []"
    using Cons.IH [of "Suc index" "forEach_entry formatTimestamp numToString entry index mapped"]
    by simp
  also have "\<dots> = mapped @ forEach_entry formatTimestamp numToString entry index [] @
      forEach formatTimestamp numToString items (Suc index) []"
    using forEach_entry_acc [of formatTimestamp numToString entry index mapped] by simp
  also have "\<dots> = mapped @ forEach formatTimestamp numToString (entry # items) index []"
    using Cons.IH [of "Suc index" "forEach_entry formatTimestamp numToString entry index []"]
    by simp
  finally show ?case .
qed

lemma forEach_append:
  "forEach formatTimestamp numToString (xs @ ys) index mapped =
   forEach formatTimestamp numToString ys (index + length xs)
     (forEach formatTimestamp numToString xs index mapped)"
  by (induction xs arbitrary: index mapped) simp_all

lemma forEach_entry_empty_iff:
  "forEach_entry formatTimestamp numToString entry index [] = [] \<longleftrightarrow>
   message entry = [] \<and> \<not> nonempty (item_reply entry)"
  by (cases "item_reply entry") (auto simp: forEach_entry_def Let_def)

lemma forEach_empty_iff:
  "forEach formatTimestamp numToString items index [] = [] \<longleftrightarrow>
   (\<forall>entry\<in>set items. message entry = [] \<and> \<not> nonempty (item_reply entry))"
proof (induction items arbitrary: index)
  case Nil
  then show ?case by simp
next
  case (Cons entry items)
  have "forEach formatTimestamp numToString (entry # items) index [] =
      forEach_entry formatTimestamp numToString entry index [] @
      forEach formatTimestamp numToString items (Suc index) []"
    using forEach_acc [of formatTimestamp numToString items "Suc index"
        "forEach_entry formatTimestamp numToString entry index []"]
    by simp
  then show ?case
    using Cons.IH [of "Suc index"] forEach_entry_empty_iff [of formatTimestamp numToString entry index]
    by auto
qed

lemma mapHistoryToMessages_nonempty:
  "mapHistoryToMessages formatTimestamp numToString loadTime items \<noteq> []"
  by (simp add: mapHistoryToMessages_def Let_def initialMessages_def)

text \<open>
  C9. In any history list, an entry with a non-empty message and a non-empty reply becomes
  exactly two transcript messages, the user's message text first and the bot's reply text
  second, placed after everything the entries before it produce and before everything the
  entries after it produce.
\<close>

theorem hydration_round_trip:
  assumes "message entry \<noteq> []" and "item_reply entry = Some r" and "r \<noteq> []"
  shows "mapHistoryToMessages formatTimestamp numToString loadTime (before @ entry # after) =
     forEach formatTimestamp numToString before 0 [] @
     [\<lparr>msg_id = baseId numToString entry (length before) @ ''-user'', msg_text = message entry,
       sender = User, time = formatTimestamp (length before) User (item_timestamp entry)\<rparr>,
      \<lparr>msg_id = baseId numToString entry (length before) @ ''-bot'', msg_text = r,
       sender = Bot, time = formatTimestamp (length before) Bot (item_timestamp entry)\<rparr>] @
     forEach formatTimestamp numToString after (Suc (length before)) []"
proof -
  let ?pre = "forEach formatTimestamp numToString before 0 []"
  let ?post = "forEach formatTimestamp numToString after (Suc (length before)) []"
  have "forEach formatTimestamp numToString (before @ entry # after) 0 [] =
      forEach formatTimestamp numToString after (Suc (length before))
        (forEach_entry formatTimestamp numToString entry (length before) ?pre)"
    by (simp add: forEach_append)
  also have "\<dots> = forEach_entry formatTimestamp numToString entry (length before) ?pre @ ?post"
    by (rule forEach_acc)
  finally have whole: "forEach formatTimestamp numToString (before @ entry # after) 0 [] =
      forEach_entry formatTimestamp numToString entry (length before) ?pre @ ?post" .
  have two: "forEach_entry formatTimestamp numToString entry (length before) ?pre =
     ?pre @
     [\<lparr>msg_id = baseId numToString entry (length before) @ ''-user'', msg_text = message entry,
       sender = User, time = formatTimestamp (length before) User (item_timestamp entry)\<rparr>,
      \<lparr>msg_id = baseId numToString entry (length before) @ ''-bot'', msg_text = r,
       sender = Bot, time = formatTimestamp (length before) Bot (item_timestamp entry)\<rparr>]"
    using assms by (simp add: forEach_entry_def Let_def)
  show ?thesis
    unfolding mapHistoryToMessages_def Let_def whole two by simp
qed

text \<open>
  C9, the example of the specification: the history with the one entry
  \<^verbatim>\<open>{id: 1, message: "hi", reply: "hello", timestamp: T}\<close> hydrates to the user message
  \<open>hi\<close> followed by the bot message \<open>hello\<close>.
\<close>

theorem hydration_round_trip_witness:
  "mapHistoryToMessages demo_formatTimestamp demo_numToString ''10:00 AM''
     [\<lparr>item_id = Some (NumId (Fin 1)), message = ''hi'', item_reply = Some ''hello'',
       item_timestamp = Some ''2024-01-01T10:15:00Z''\<rparr>] =
   [\<lparr>msg_id = ''1-user'', msg_text = ''hi'', sender = User, time = ''10:15 AM''\<rparr>,
    \<lparr>msg_id = ''1-bot'', msg_text = ''hello'', sender = Bot, time = ''10:15 AM''\<rparr>]"
proof -
  let ?entry = "\<lparr>item_id = Some (NumId (Fin 1)), message = ''hi'', item_reply = Some ''hello'',
       item_timestamp = Some ''2024-01-01T10:15:00Z''\<rparr>"
  have h: "message ?entry \<noteq> []" "item_reply ?entry = Some ''hello''" "''hello'' \<noteq> []"
    by simp_all
  show ?thesis
    using hydration_round_trip [OF h, where formatTimestamp = demo_formatTimestamp
        and numToString = demo_numToString and loadTime = "''10:00 AM''" and before = "[]"
        and after = "[]"]
    by (simp add: baseId_def demo_numToString_def demo_formatTimestamp_def)
qed

text \<open>
  C10. When every entry of the fetched history lacks both a non-empty message and a
  non-empty reply (in particular when the list is empty), \<^verbatim>\<open>mapHistoryToMessages\<close> gives
  the default greeting, and a hydration that fetched this history leaves the transcript
  equal to that single greeting. Whatever the session lookup and the history request
  do, \<^verbatim>\<open>loadHistory\<close> never turns a non-empty transcript into an empty one.
\<close>

theorem hydration_never_empty:
  "((\<forall>entry\<in>set items. message entry = [] \<and> \<not> nonempty (item_reply entry)) \<longrightarrow>
      mapHistoryToMessages formatTimestamp numToString loadTime items = initialMessages loadTime \<and>
      (sid \<noteq> [] \<and> fetchChatHistory sid 30 = Inr items \<longrightarrow>
         messages (loadHistory formatTimestamp numToString loadTime (Some sid) fetchChatHistory
                     StaysMounted s) = initialMessages loadTime)) \<and>
   length (initialMessages loadTime) = 1 \<and>
   (messages s \<noteq> [] \<longrightarrow>
      messages (loadHistory formatTimestamp numToString loadTime recentSession fetchChatHistory
                  unmounted s) \<noteq> [])"
proof -
  have zero: "mapHistoryToMessages formatTimestamp numToString loadTime items =
      initialMessages loadTime"
    if "\<forall>entry\<in>set items. message entry = [] \<and> \<not> nonempty (item_reply entry)"
    using that forEach_empty_iff [of formatTimestamp numToString items 0]
    by (simp add: mapHistoryToMessages_def Let_def)
  have keep: "messages (loadHistory formatTimestamp numToString loadTime recentSession
      fetchChatHistory unmounted s) \<noteq> []" if "messages s \<noteq> []"
    using that mapHistoryToMessages_nonempty
    by (auto simp: loadHistory_def Let_def split: option.splits sum.splits)
  show ?thesis
    using zero keep by (auto simp: loadHistory_def Let_def initialMessages_def)
qed

text \<open>
  C10, three instances from the freshly mounted screen: the session \<open>abc\<close> with an empty
  history, with a history of one entry without message and reply, and with a history
  request that fails.
\<close>

theorem hydration_never_empty_witness:
  "messages (loadHistory demo_formatTimestamp demo_numToString ''10:00 AM'' (Some ''abc'')
      (\<lambda>sid n. Inr []) StaysMounted (initialChatScreen ''10:00 AM'')) =
     initialMessages ''10:00 AM'' \<and>
   messages (loadHistory demo_formatTimestamp demo_numToString ''10:00 AM'' (Some ''abc'')
      (\<lambda>sid n. Inr [\<lparr>item_id = None, message = '''', item_reply = Some '''',
                       item_timestamp = None\<rparr>])
      StaysMounted (initialChatScreen ''10:00 AM'')) = initialMessages ''10:00 AM'' \<and>
   messages (loadHistory demo_formatTimestamp demo_numToString ''10:00 AM'' (Some ''abc'')
      (\<lambda>sid n. Inl (OtherError ''Failed to fetch chat history (500)''))
      StaysMounted (initialChatScreen ''10:00 AM'')) \<noteq> []"
proof -
  let ?s = "initialChatScreen ''10:00 AM''"
  let ?blank = "\<lparr>item_id = None, message = '''', item_reply = Some '''', item_timestamp = None\<rparr>"
  let ?none = "\<lambda>(sid::string) (n::nat). (Inr [] :: thrown + ChatHistoryItem list)"
  let ?one = "\<lambda>(sid::string) (n::nat). (Inr [?blank] :: thrown + ChatHistoryItem list)"
  let ?fails = "\<lambda>(sid::string) (n::nat).
      (Inl (OtherError ''Failed to fetch chat history (500)'') :: thrown + ChatHistoryItem list)"
  have e1: "\<forall>entry\<in>set ([] :: ChatHistoryItem list).
      message entry = [] \<and> \<not> nonempty (item_reply entry)"
    by simp
  have e2: "\<forall>entry\<in>set [?blank]. message entry = [] \<and> \<not> nonempty (item_reply entry)"
    by simp
  have sid: "''abc'' \<noteq> []"
    by simp
  have start: "messages ?s \<noteq> []"
    by (simp add: initialChatScreen_def initialMessages_def)
  have 1: "messages (loadHistory demo_formatTimestamp demo_numToString ''10:00 AM'' (Some ''abc'')
      ?none StaysMounted ?s) = initialMessages ''10:00 AM''"
    using hydration_never_empty [where items = "[]" and sid = "''abc''"
        and fetchChatHistory = "?none" and s = "?s" and loadTime = "''10:00 AM''"
        and formatTimestamp = demo_formatTimestamp and numToString = demo_numToString]
      e1 sid
    by blast
  have 2: "messages (loadHistory demo_formatTimestamp demo_numToString ''10:00 AM'' (Some ''abc'')
      ?one StaysMounted ?s) = initialMessages ''10:00 AM''"
    using hydration_never_empty [where items = "[?blank]" and sid = "''abc''"
        and fetchChatHistory = "?one" and s = "?s" and loadTime = "''10:00 AM''"
        and formatTimestamp = demo_formatTimestamp and numToString = demo_numToString]
      e2 sid
    by blast
  have 3: "messages (loadHistory demo_formatTimestamp demo_numToString ''10:00 AM'' (Some ''abc'')
      ?fails StaysMounted ?s) \<noteq> []"
    using hydration_never_empty [where s = "?s" and recentSession = "Some ''abc''"
        and fetchChatHistory = "?fails" and unmounted = StaysMounted
        and loadTime = "''10:00 AM''"
        and formatTimestamp = demo_formatTimestamp and numToString = demo_numToString]
      start
    by blast
  from 1 2 3 show ?thesis by blast
qed

end
